theory Spec2Isabelle
  imports Complex_Main "HOL-Library.Sublist" "HOL-Library.Log_Nat"
begin

text \<open>
  A model of the action \<^verbatim>\<open>src/index.js\<close>: it polls the provider until a deployment for
  the commit exists, polls that deployment until it is ready, and then requests the
  public URL until it answers. The clock, the network and the channels of the action
  (log, outputs, failure) are explicit: every function takes the state of the world and
  returns the new one, and what it did is recorded in a trace of events.
\<close>

section \<open>JavaScript values\<close>

text \<open>
  The values the action handles are strings that may be missing: fields of the JSON
  records returned by the provider, the environment variable \<^verbatim>\<open>NETLIFY_TOKEN\<close>, the
  commit reference taken from the GitHub context. Strict equality \<^verbatim>\<open>===\<close> on these
  values is structural equality.
\<close>

datatype jsval = Undefined | Null | Str string

text \<open>Truthiness, as used by \<^verbatim>\<open>!x\<close> and \<^verbatim>\<open>if (x)\<close>.\<close>

fun truthy :: "jsval \<Rightarrow> bool" where
  "truthy Undefined = False"
| "truthy Null = False"
| "truthy (Str s) = (s \<noteq> [])"

text \<open>String conversion, as done by a template literal \<^verbatim>\<open>`${x}`\<close>.\<close>

fun to_string :: "jsval \<Rightarrow> string" where
  "to_string Undefined = ''undefined''"
| "to_string Null = ''null''"
| "to_string (Str s) = s"

text \<open>
  Numbers are IEEE 754 doubles: \<open>NaN\<close>, the two infinities, and the finite values,
  each given by the rational it denotes (the sign of zero is not kept: the program
  never divides by a computed value).
\<close>

datatype jsnum = NaN | Num rat | PosInf | NegInf

text \<open>
  Rounding of an exact result to the nearest double, ties to the even significand.
  For \<open>x > 0\<close>, \<open>exponent x\<close> is the \<open>e\<close> with \<open>2 ^ e \<le> x < 2 ^ (e + 1)\<close>; the
  doubles around \<open>x\<close> are the multiples of \<open>2 ^ (e - 52)\<close>, where \<open>e\<close> is taken at
  least \<open>-1022\<close> (below that the values are subnormal); a result of \<open>2 ^ 1024\<close> or
  more is infinite.
\<close>

definition exponent :: "rat \<Rightarrow> int" where
  "exponent x = (if 1 \<le> x then bitlen \<lfloor>x\<rfloor> - 1 else - bitlen (\<lceil>1 / x\<rceil> - 1))"

definition round_half_even :: "rat \<Rightarrow> int" where
  "round_half_even y =
     (let f = \<lfloor>y\<rfloor>; d = y - of_int f
      in if d < 1 / 2 then f else if 1 / 2 < d then f + 1 else if even f then f else f + 1)"

definition fl_pos :: "rat \<Rightarrow> jsnum" where
  "fl_pos x =
     (let e = max (exponent x) (- 1022);
          u = 2 powi (e - 52);
          r = of_int (round_half_even (x / u)) * u
      in if 2 powi 1024 \<le> r then PosInf else Num r)"

fun js_negate :: "jsnum \<Rightarrow> jsnum" where
  "js_negate NaN = NaN"
| "js_negate (Num a) = Num (- a)"
| "js_negate PosInf = NegInf"
| "js_negate NegInf = PosInf"

definition fl :: "rat \<Rightarrow> jsnum" where
  "fl x = (if x = 0 then Num 0 else if 0 < x then fl_pos x else js_negate (fl_pos (- x)))"

text \<open>
  \<^verbatim>\<open>ToNumber\<close> of an argument that is a time in milliseconds or was omitted
  (\<^verbatim>\<open>undefined\<close>).
\<close>

fun ToNumber :: "int option \<Rightarrow> jsnum" where
  "ToNumber None = NaN"
| "ToNumber (Some t) = fl (of_int t)"

text \<open>Subtraction.\<close>

fun js_minus :: "jsnum \<Rightarrow> jsnum \<Rightarrow> jsnum" where
  "js_minus NaN b = NaN"
| "js_minus a NaN = NaN"
| "js_minus (Num a) (Num b) = fl (a - b)"
| "js_minus (Num a) PosInf = NegInf"
| "js_minus (Num a) NegInf = PosInf"
| "js_minus PosInf PosInf = NaN"
| "js_minus PosInf b = PosInf"
| "js_minus NegInf NegInf = NaN"
| "js_minus NegInf b = NegInf"

text \<open>
  Division and multiplication by a positive literal (the program has \<^verbatim>\<open>/ 1000\<close>,
  \<^verbatim>\<open>* 10\<close>, \<^verbatim>\<open>/ 10\<close> and \<^verbatim>\<open>/ 3\<close>).
\<close>

fun js_divide :: "jsnum \<Rightarrow> rat \<Rightarrow> jsnum" where
  "js_divide NaN c = NaN"
| "js_divide (Num a) c = fl (a / c)"
| "js_divide PosInf c = PosInf"
| "js_divide NegInf c = NegInf"

fun js_times :: "jsnum \<Rightarrow> rat \<Rightarrow> jsnum" where
  "js_times NaN c = NaN"
| "js_times (Num a) c = fl (a * c)"
| "js_times PosInf c = PosInf"
| "js_times NegInf c = NegInf"

text \<open>
  \<^verbatim>\<open>Math.round\<close>: the nearest integer, halves rounded up (that integer is a double
  whenever the argument is one).
\<close>

fun Math_round :: "jsnum \<Rightarrow> jsnum" where
  "Math_round NaN = NaN"
| "Math_round (Num a) = Num (of_int \<lfloor>a + 1 / 2\<rfloor>)"
| "Math_round PosInf = PosInf"
| "Math_round NegInf = NegInf"

text \<open>The comparisons \<^verbatim>\<open>>\<close> and \<^verbatim>\<open><\<close>: false as soon as one side is \<open>NaN\<close>.\<close>

fun js_lt :: "jsnum \<Rightarrow> jsnum \<Rightarrow> bool" where
  "js_lt NaN b = False"
| "js_lt a NaN = False"
| "js_lt (Num a) (Num b) = (a < b)"
| "js_lt (Num a) PosInf = True"
| "js_lt (Num a) NegInf = False"
| "js_lt PosInf b = False"
| "js_lt NegInf NegInf = False"
| "js_lt NegInf b = True"

definition js_gt :: "jsnum \<Rightarrow> jsnum \<Rightarrow> bool" where
  "js_gt a b = js_lt b a"

text \<open>\<^verbatim>\<open>x || d\<close> on numbers: \<open>NaN\<close> and \<open>0\<close> are falsy.\<close>

fun js_or_default :: "jsnum \<Rightarrow> rat \<Rightarrow> jsnum" where
  "js_or_default NaN d = Num d"
| "js_or_default (Num a) d = (if a = 0 then Num d else Num a)"
| "js_or_default PosInf d = PosInf"
| "js_or_default NegInf d = NegInf"

text \<open>
  \<^verbatim>\<open>i++\<close> on a loop counter that holds a natural number: exact up to \<open>2 ^ 53\<close>,
  where \<open>2 ^ 53 + 1\<close> is rounded back to \<open>2 ^ 53\<close>.
\<close>

definition js_increment :: "nat \<Rightarrow> nat" where
  "js_increment i = (if i < 2 ^ 53 then Suc i else i)"

section \<open>Messages, errors, events\<close>

text \<open>
  A template literal that interpolates a number is kept as its parts, so that the
  number printed is visible without modelling number formatting.
\<close>

datatype part = Txt string | NumP jsnum

type_synonym message = "part list"

text \<open>
  What can be thrown: \<^verbatim>\<open>new Error(msg)\<close> by the program, a \<^verbatim>\<open>TypeError\<close> by the
  runtime (its message is the runtime's wording, here V8's), and the rejection of an
  axios request.
\<close>

datatype error = Error message | TypeError string | AxiosError string

fun error_message :: "error \<Rightarrow> message" where
  "error_message (Error m) = m"
| "error_message (TypeError s) = [Txt s]"
| "error_message (AxiosError s) = [Txt s]"

text \<open>
  The outcome of an asynchronous function that polls: it returned, it threw, or it is
  still polling when the iterations granted to the model are used up.
\<close>

datatype 'a outcome = Returned 'a | Threw error | Unfinished

text \<open>A deployment record of the provider, with the fields the program reads.\<close>

record deploy =
  deploy_id :: jsval
  deploy_name :: jsval
  commit_ref :: jsval
  deploy_context :: jsval
  deploy_state :: jsval

text \<open>
  The \<^verbatim>\<open>data\<close> field of a response: missing, null, an array of deployment records (the
  list endpoint) or one record (the single-deployment endpoint).
\<close>

datatype data = JUndefined | JNull | JList "deploy list" | JObj deploy

datatype get_result = Rejected string | Resolved data

datatype head_result = HeadOk | HeadFail jsval jsval

text \<open>Everything the program does to the outside, in order.\<close>

datatype event =
    HttpGet string string
  | HttpHead string
  | ConsoleLog message
  | ConsoleLogError message jsval jsval
  | SetTimeout nat
  | SetFailed message
  | SetOutput string jsval

text \<open>
  A property that may be missing or null, and reading a property of such a value (a
  \<^verbatim>\<open>TypeError\<close> when there is nothing to read from; the wording of its message is the
  runtime's, not the program's).
\<close>

datatype 'a nullable = Absent | IsNull | Present 'a

definition cannot_read :: "string \<Rightarrow> string \<Rightarrow> string" where
  "cannot_read what prop =
     ''Cannot read properties of '' @ what @ '' (reading '' @ [CHR 0x27] @ prop @ [CHR 0x27]
       @ '')''"

fun read_property :: "string \<Rightarrow> 'a nullable \<Rightarrow> error + 'a" where
  "read_property prop Absent = Inl (TypeError (cannot_read ''undefined'' prop))"
| "read_property prop IsNull = Inl (TypeError (cannot_read ''null'' prop))"
| "read_property prop (Present v) = Inr v"

text \<open>
  The surroundings of one run:
  \<^item> \<open>NETLIFY_TOKEN\<close> is \<^verbatim>\<open>process.env.NETLIFY_TOKEN\<close>;
  \<^item> \<open>eventName\<close> and \<open>sha\<close> are \<^verbatim>\<open>github.context.eventName\<close> and
    \<^verbatim>\<open>github.context.sha\<close>;
  \<^item> \<open>pull_request\<close> is \<^verbatim>\<open>github.context.payload.pull_request\<close>: missing, null, or an
    object whose \<^verbatim>\<open>head\<close> is missing, null, or an object with the field \<^verbatim>\<open>sha\<close>;
  \<^item> \<open>max_timeout\<close> is \<^verbatim>\<open>Number(core.getInput('max_timeout'))\<close>, \<open>site_id\<close> and
    \<open>context_input\<close> are \<^verbatim>\<open>core.getInput('site_id')\<close> and \<^verbatim>\<open>core.getInput('context')\<close>
    (the empty string when the input is not given);
  \<^item> \<open>get_response n\<close> and \<open>head_response n\<close> are what the network answers when the
    \<open>n\<close>-th request of the run (counted from 0) is a \<^verbatim>\<open>GET\<close> or a \<^verbatim>\<open>HEAD\<close>, and
    \<open>latency n\<close> is the time that request takes, in milliseconds.
\<close>

record env =
  NETLIFY_TOKEN :: jsval
  eventName :: jsval
  pull_request :: "jsval nullable nullable"
  sha :: jsval
  max_timeout :: jsnum
  site_id :: string
  context_input :: string
  get_response :: "nat \<Rightarrow> get_result"
  head_response :: "nat \<Rightarrow> head_result"
  latency :: "nat \<Rightarrow> nat"

text \<open>
  The state threaded through the program: the clock read by \<^verbatim>\<open>Date.now()\<close> in
  milliseconds, the number of HTTP requests issued so far, and the events so far.
\<close>

record world =
  now :: int
  requests :: nat
  trace :: "event list"

definition emit :: "event \<Rightarrow> world \<Rightarrow> world" where
  "emit e w = w\<lparr>trace := trace w @ [e]\<rparr>"

definition console_log :: "message \<Rightarrow> world \<Rightarrow> world" where
  "console_log m w = emit (ConsoleLog m) w"

definition setFailed :: "message \<Rightarrow> world \<Rightarrow> world" where
  "setFailed m w = emit (SetFailed m) w"

definition setOutput :: "string \<Rightarrow> jsval \<Rightarrow> world \<Rightarrow> world" where
  "setOutput k v w = emit (SetOutput k v) w"

text \<open>A timer of \<open>ms\<close> milliseconds, awaited.\<close>

definition sleep_ms :: "nat \<Rightarrow> world \<Rightarrow> world" where
  "sleep_ms ms w = (emit (SetTimeout ms) w)\<lparr>now := now w + int ms\<rparr>"

definition waitForSeconds :: "nat \<Rightarrow> world \<Rightarrow> world" where
  "waitForSeconds seconds w = sleep_ms (seconds * 1000) w"

text \<open>One request: the event, the time it takes, the request counter.\<close>

definition request :: "env \<Rightarrow> event \<Rightarrow> world \<Rightarrow> world" where
  "request env e w =
     (emit e w)\<lparr>now := now w + int (latency env (requests w)), requests := Suc (requests w)\<rparr>"

definition getNetlifyUrl :: "env \<Rightarrow> string \<Rightarrow> world \<Rightarrow> get_result \<times> world" where
  "getNetlifyUrl env url w =
     (get_response env (requests w),
      request env (HttpGet url (''Bearer '' @ to_string (NETLIFY_TOKEN env))) w)"

definition axios_head :: "env \<Rightarrow> string \<Rightarrow> world \<Rightarrow> head_result \<times> world" where
  "axios_head env url w = (head_response env (requests w), request env (HttpHead url) w)"

section \<open>Utils\<close>

text \<open>
  \<^verbatim>\<open>ellapsedSeconds(timestamp)\<close>; the argument is \<open>None\<close> when the call passes none.
\<close>

definition ellapsedSeconds :: "world \<Rightarrow> int option \<Rightarrow> jsnum" where
  "ellapsedSeconds w timestamp =
     (let seconds = js_divide (js_minus (fl (of_int (now w))) (ToNumber timestamp)) 1000
      in js_divide (Math_round (js_times seconds 10)) 10)"

section \<open>Waiting for the deployment to be created\<close>

text \<open>The predicate given to \<^verbatim>\<open>find\<close>.\<close>

definition is_current :: "jsval \<Rightarrow> jsval \<Rightarrow> deploy \<Rightarrow> bool" where
  "is_current commitSha context d =
     (commit_ref d = commitSha \<and> (\<not> truthy context \<or> deploy_context d = context))"

definition getCurrentDeploymentIfCreated ::
  "env \<Rightarrow> string \<Rightarrow> jsval \<Rightarrow> jsval \<Rightarrow> world \<Rightarrow> (error + deploy option) \<times> world" where
  "getCurrentDeploymentIfCreated env url commitSha context w =
     (case getNetlifyUrl env url w of
        (Rejected m, w1) \<Rightarrow> (Inl (AxiosError m), w1)
      | (Resolved JUndefined, w1) \<Rightarrow>
          (Inl (Error [Txt ''Failed to get deployments for site'']), w1)
      | (Resolved JNull, w1) \<Rightarrow>
          (Inl (Error [Txt ''Failed to get deployments for site'']), w1)
      | (Resolved (JObj d), w1) \<Rightarrow>
          (Inl (TypeError ''netlifyDeployments.find is not a function''), w1)
      | (Resolved (JList netlifyDeployments), w1) \<Rightarrow>
          (Inr (find (is_current commitSha context) netlifyDeployments), w1))"

text \<open>
  \<^verbatim>\<open>checkContinually\<close> of \<^verbatim>\<open>waitForDeployCreation\<close>. The first argument bounds the
  number of iterations the model follows.
\<close>

fun creation_checkContinually ::
  "nat \<Rightarrow> env \<Rightarrow> string \<Rightarrow> jsval \<Rightarrow> jsnum \<Rightarrow> jsval \<Rightarrow> int \<Rightarrow> world \<Rightarrow> deploy outcome \<times> world"
where
  "creation_checkContinually 0 env url commitSha timeoutSeconds context startTime w =
     (Unfinished, w)"
| "creation_checkContinually (Suc n) env url commitSha timeoutSeconds context startTime w =
     (case getCurrentDeploymentIfCreated env url commitSha context w of
        (Inl e, w1) \<Rightarrow> (Threw e, w1)
      | (Inr (Some currentDeployment), w1) \<Rightarrow>
          (Returned currentDeployment,
           console_log [Txt ''Deployment created ('',
                        NumP (ellapsedSeconds w1 (Some startTime)), Txt ''s)''] w1)
      | (Inr None, w1) \<Rightarrow>
          (if js_gt (ellapsedSeconds w1 None) timeoutSeconds then
             (Threw (Error [Txt ''Timeout reached: Deployment was not ready within '',
                            NumP timeoutSeconds, Txt '' seconds.'']), w1)
           else
             creation_checkContinually n env url commitSha timeoutSeconds context startTime
               (waitForSeconds 5
                 (console_log [Txt ''Deploy not yet created. Trying again in '',
                               NumP (Num 5), Txt '' seconds...''] w1))))"

definition waitForDeployCreation ::
  "nat \<Rightarrow> env \<Rightarrow> string \<Rightarrow> jsval \<Rightarrow> jsnum \<Rightarrow> jsval \<Rightarrow> world \<Rightarrow> deploy outcome \<times> world" where
  "waitForDeployCreation fuel env url commitSha timeoutSeconds context w =
     creation_checkContinually fuel env url commitSha timeoutSeconds context (now w) w"

section \<open>Waiting for the deployment to be ready\<close>

definition READY_STATES :: "jsval list" where
  "READY_STATES = [Str ''ready'', Str ''current'']"

text \<open>
  Reading \<^verbatim>\<open>.state\<close> of the response data: an error on \<^verbatim>\<open>null\<close> and \<^verbatim>\<open>undefined\<close>,
  \<^verbatim>\<open>undefined\<close> on an array, the field on a record.
\<close>

fun data_state :: "data \<Rightarrow> error + jsval" where
  "data_state JUndefined = Inl (TypeError (cannot_read ''undefined'' ''state''))"
| "data_state JNull = Inl (TypeError (cannot_read ''null'' ''state''))"
| "data_state (JList ds) = Inr Undefined"
| "data_state (JObj d) = Inr (deploy_state d)"

text \<open>
  \<^verbatim>\<open>isCurrentDeploymentReady\<close>: the answer together with the new value of the variable
  \<^verbatim>\<open>latestDeployState\<close>.
\<close>

definition isCurrentDeploymentReady ::
  "env \<Rightarrow> string \<Rightarrow> world \<Rightarrow> (error + bool \<times> jsval) \<times> world" where
  "isCurrentDeploymentReady env url w =
     (case getNetlifyUrl env url w of
        (Rejected m, w1) \<Rightarrow> (Inl (AxiosError m), w1)
      | (Resolved deploy, w1) \<Rightarrow>
          (case data_state deploy of
             Inl e \<Rightarrow> (Inl e, w1)
           | Inr latestDeployState \<Rightarrow>
               (Inr (latestDeployState \<in> set READY_STATES, latestDeployState), w1)))"

fun readiness_checkContinually ::
  "nat \<Rightarrow> env \<Rightarrow> string \<Rightarrow> jsnum \<Rightarrow> int \<Rightarrow> jsval \<Rightarrow> world \<Rightarrow> unit outcome \<times> world"
where
  "readiness_checkContinually 0 env url timeoutSeconds startTime latestDeployState w =
     (Unfinished, w)"
| "readiness_checkContinually (Suc n) env url timeoutSeconds startTime latestDeployState w =
     (case isCurrentDeploymentReady env url w of
        (Inl e, w1) \<Rightarrow> (Threw e, w1)
      | (Inr (isReady, latestDeployState1), w1) \<Rightarrow>
          (if isReady then
             (Returned (),
              console_log [Txt ''Deployment ready ('',
                           NumP (ellapsedSeconds w1 (Some startTime)), Txt ''s)''] w1)
           else if js_gt (ellapsedSeconds w1 None) timeoutSeconds then
             (Threw (Error [Txt ''Timeout reached: Deployment was not ready within '',
                            NumP timeoutSeconds,
                            Txt ('' seconds. Last known deployment state: ''
                                 @ to_string latestDeployState1 @ ''.'')]), w1)
           else
             readiness_checkContinually n env url timeoutSeconds startTime latestDeployState1
               (waitForSeconds 10
                 (console_log [Txt (''Deploy not yet ready (state = ''
                                    @ to_string latestDeployState1 @ ''). Trying again in ''),
                               NumP (Num 10), Txt '' seconds...''] w1))))"

definition waitForReadiness ::
  "nat \<Rightarrow> env \<Rightarrow> string \<Rightarrow> jsnum \<Rightarrow> world \<Rightarrow> unit outcome \<times> world" where
  "waitForReadiness fuel env url timeoutSeconds w =
     readiness_checkContinually fuel env url timeoutSeconds (now w) (Str ''(unknown)'') w"

section \<open>Waiting for the URL\<close>

text \<open>
  The \<^verbatim>\<open>for\<close> loop of \<^verbatim>\<open>waitForUrl\<close> from counter \<open>i\<close> on, with the call of
  \<^verbatim>\<open>core.setFailed\<close> that follows the loop. With an infinite bound the loop need not
  end, so the first argument bounds the number of times the model tests the loop
  condition.
\<close>

fun waitForUrl_loop ::
  "nat \<Rightarrow> env \<Rightarrow> string \<Rightarrow> jsnum \<Rightarrow> nat \<Rightarrow> world \<Rightarrow> unit outcome \<times> world"
where
  "waitForUrl_loop 0 env url iterations i w = (Unfinished, w)"
| "waitForUrl_loop (Suc n) env url iterations i w =
     (if js_lt (Num (of_nat i)) iterations then
        (case axios_head env url w of
           (HeadOk, w1) \<Rightarrow> (Returned (), w1)
         | (HeadFail errorCode errorMessage, w1) \<Rightarrow>
             waitForUrl_loop n env url iterations (js_increment i)
               (sleep_ms 3000
                 (emit (ConsoleLogError
                          [Txt (''URL '' @ url @ '' unavailable, retrying...''
                                @ [CHR 0x0A, CHR 0x09])]
                          errorCode errorMessage) w1)))
      else (Returned (),
            setFailed [Txt (''Timeout reached: Unable to connect to '' @ url)] w))"

definition waitForUrl ::
  "nat \<Rightarrow> env \<Rightarrow> string \<Rightarrow> jsnum \<Rightarrow> world \<Rightarrow> unit outcome \<times> world" where
  "waitForUrl fuel env url timeoutSeconds w =
     (let iterations = js_divide timeoutSeconds 3
      in waitForUrl_loop fuel env url iterations 0 w)"

section \<open>The run\<close>

text \<open>
  The commit the run waits for. Reading
  \<^verbatim>\<open>github.context.payload.pull_request.head.sha\<close> throws when \<^verbatim>\<open>pull_request\<close> or its
  \<^verbatim>\<open>head\<close> is missing.
\<close>

definition commitSha_of :: "env \<Rightarrow> error + jsval" where
  "commitSha_of env =
     (if eventName env = Str ''pull_request'' then
        (case read_property ''head'' (pull_request env) of
           Inl e \<Rightarrow> Inl e
         | Inr head \<Rightarrow> read_property ''sha'' head)
      else Inr (sha env))"

text \<open>The three checks of the required values, in the order of the source.\<close>

definition check_required :: "env \<Rightarrow> jsval \<Rightarrow> world \<Rightarrow> world" where
  "check_required env commitSha w0 =
     (let w1 = (if \<not> truthy (NETLIFY_TOKEN env) then
                  setFailed [Txt (''Please set NETLIFY_TOKEN env variable to your ''
                                  @ ''Netlify Personal Access Token secret'')] w0
                else w0);
          w2 = (if \<not> truthy commitSha then
                  setFailed [Txt ''Could not determine GitHub commit''] w1
                else w1)
      in (if site_id env = [] then
            setFailed [Txt ''Required field `site_id` was not provided''] w2
          else w2))"

definition deploys_url :: "env \<Rightarrow> string" where
  "deploys_url env = ''https://api.netlify.com/api/v1/sites/'' @ site_id env @ ''/deploys''"

definition preview_url :: "deploy \<Rightarrow> string" where
  "preview_url commitDeployment =
     ''https://'' @ to_string (deploy_id commitDeployment) @ ''--''
       @ to_string (deploy_name commitDeployment) @ ''.netlify.app''"

text \<open>The body of \<^verbatim>\<open>try\<close> from the line that computes \<^verbatim>\<open>url\<close> on.\<close>

definition run_after_creation :: "nat \<Rightarrow> env \<Rightarrow> deploy \<Rightarrow> world \<Rightarrow> unit outcome \<times> world" where
  "run_after_creation fuel env commitDeployment w5 =
     (let MAX_WAIT_TIMEOUT = Num (60 * 15);
          MAX_READY_TIMEOUT = js_or_default (max_timeout env) 60;
          url = preview_url commitDeployment;
          w6 = setOutput ''deploy_id'' (deploy_id commitDeployment) w5;
          w7 = setOutput ''url'' (Str url) w6;
          w8 = console_log [Txt (''Waiting for Netlify deployment ''
                                 @ to_string (deploy_id commitDeployment) @ '' in site ''
                                 @ to_string (deploy_name commitDeployment)
                                 @ '' to be ready'')] w7
      in case waitForReadiness fuel env
                (deploys_url env @ ''/'' @ to_string (deploy_id commitDeployment))
                MAX_WAIT_TIMEOUT w8 of
           (Threw e, w9) \<Rightarrow> (Threw e, w9)
         | (Unfinished, w9) \<Rightarrow> (Unfinished, w9)
         | (Returned u, w9) \<Rightarrow>
             waitForUrl fuel env url MAX_READY_TIMEOUT
               (console_log [Txt (''Waiting for a 200 from: '' @ url)] w9))"

text \<open>The state in which the first waiter is called, once the commit is known.\<close>

definition before_creation :: "env \<Rightarrow> jsval \<Rightarrow> world \<Rightarrow> world" where
  "before_creation env commitSha w0 =
     (let context = context_input env;
          message = ''Waiting for Netlify to create a deployment for git SHA ''
                    @ to_string commitSha
                    @ (if context \<noteq> [] then '' and context '' @ context else [])
      in console_log [Txt message] (check_required env commitSha w0))"

definition run_try :: "nat \<Rightarrow> env \<Rightarrow> world \<Rightarrow> unit outcome \<times> world" where
  "run_try fuel env w0 =
     (case commitSha_of env of
        Inl e \<Rightarrow> (Threw e, w0)
      | Inr commitSha \<Rightarrow>
          (let MAX_CREATE_TIMEOUT = Num (60 * 5)
           in case waitForDeployCreation fuel env (deploys_url env) commitSha
                     MAX_CREATE_TIMEOUT (Str (context_input env))
                     (before_creation env commitSha w0) of
                (Threw e, w5) \<Rightarrow> (Threw e, w5)
              | (Unfinished, w5) \<Rightarrow> (Unfinished, w5)
              | (Returned commitDeployment, w5) \<Rightarrow>
                  run_after_creation fuel env commitDeployment w5))"

text \<open>\<^verbatim>\<open>run\<close>: what is thrown inside \<^verbatim>\<open>try\<close> is reported by \<^verbatim>\<open>core.setFailed\<close>.\<close>

definition run :: "nat \<Rightarrow> env \<Rightarrow> world \<Rightarrow> unit outcome \<times> world" where
  "run fuel env w0 =
     (case run_try fuel env w0 of
        (Threw error, w) \<Rightarrow> (Returned (), setFailed (error_message error) w)
      | (Returned u, w) \<Rightarrow> (Returned u, w)
      | (Unfinished, w) \<Rightarrow> (Unfinished, w))"

text \<open>The number of \<^verbatim>\<open>HEAD\<close> requests among some events.\<close>

fun is_head :: "event \<Rightarrow> bool" where
  "is_head (HttpHead u) = True"
| "is_head _ = False"

definition head_attempts :: "event list \<Rightarrow> nat" where
  "head_attempts es = length (filter is_head es)"

section \<open>Inputs used in examples\<close>

text \<open>
  A provider whose deployment list never holds a match (it is empty), and whose
  requests take no time.
\<close>

definition stuck_env :: env where
  "stuck_env = \<lparr>NETLIFY_TOKEN = Str ''t0k3n'', eventName = Str ''push'',
     pull_request = Absent, sha = Str ''abc123'', max_timeout = Num 9,
     site_id = ''site1'', context_input = [],
     get_response = (\<lambda>n. Resolved (JList [])),
     head_response = (\<lambda>n. HeadFail Undefined Undefined),
     latency = (\<lambda>n. 0)\<rparr>"

text \<open>The state in which a run starts at clock \<open>t\<close>.\<close>

definition initial :: "int \<Rightarrow> world" where
  "initial t = \<lparr>now = t, requests = 0, trace = []\<rparr>"

text \<open>A provider that always reports the deployment in state \<^verbatim>\<open>"error"\<close>.\<close>

definition error_state_env :: env where
  "error_state_env = \<lparr>NETLIFY_TOKEN = Str ''t0k3n'', eventName = Str ''push'',
     pull_request = Absent, sha = Str ''abc123'', max_timeout = Num 9,
     site_id = ''site1'', context_input = [],
     get_response = (\<lambda>n. Resolved (JObj \<lparr>deploy_id = Str ''xyz'', deploy_name = Str ''mysite'',
        commit_ref = Str ''abc123'', deploy_context = Str ''production'',
        deploy_state = Str ''error''\<rparr>)),
     head_response = (\<lambda>n. HeadOk),
     latency = (\<lambda>n. 0)\<rparr>"

text \<open>A provider whose list endpoint answers with \<^verbatim>\<open>null\<close>.\<close>

definition null_list_env :: env where
  "null_list_env = stuck_env\<lparr>get_response := (\<lambda>n. Resolved JNull)\<rparr>"

text \<open>A list of three deployments; the second and the third are for commit \<^verbatim>\<open>abc123\<close>.\<close>

definition other_deploy :: deploy where
  "other_deploy = \<lparr>deploy_id = Str ''old'', deploy_name = Str ''mysite'',
     commit_ref = Str ''fff000'', deploy_context = Str ''production'',
     deploy_state = Str ''ready''\<rparr>"

definition wanted_deploy :: deploy where
  "wanted_deploy = \<lparr>deploy_id = Str ''xyz'', deploy_name = Str ''mysite'',
     commit_ref = Str ''abc123'', deploy_context = Str ''deploy-preview'',
     deploy_state = Str ''building''\<rparr>"

definition later_deploy :: deploy where
  "later_deploy = \<lparr>deploy_id = Str ''uvw'', deploy_name = Str ''mysite'',
     commit_ref = Str ''abc123'', deploy_context = Str ''production'',
     deploy_state = Str ''ready''\<rparr>"

definition listing_env :: env where
  "listing_env = stuck_env\<lparr>get_response :=
     (\<lambda>n. Resolved (JList [other_deploy, wanted_deploy, later_deploy]))\<rparr>"





text \<open>A URL that answers on the third \<^verbatim>\<open>HEAD\<close> request.\<close>

definition third_time_env :: env where
  "third_time_env = stuck_env\<lparr>head_response :=
     (\<lambda>n. if n = 2 then HeadOk else HeadFail (Str ''ENOTFOUND'') (Str ''getaddrinfo ENOTFOUND''))\<rparr>"

text \<open>
  A provider that lists the deployment \<^verbatim>\<open>xyz\<close> of site \<^verbatim>\<open>mysite\<close> at once and then answers
  \<^verbatim>\<open>null\<close> on the single-deployment endpoint; the state of the run when the first
  waiter has returned.
\<close>

definition xyz_deploy :: deploy where
  "xyz_deploy = \<lparr>deploy_id = Str ''xyz'', deploy_name = Str ''mysite'',
     commit_ref = Str ''abc123'', deploy_context = Str ''deploy-preview'',
     deploy_state = Str ''building''\<rparr>"

definition null_status_env :: env where
  "null_status_env = stuck_env\<lparr>get_response :=
     (\<lambda>n. if n = 0 then Resolved (JList [xyz_deploy]) else Resolved JNull)\<rparr>"

definition created_world :: world where
  "created_world = \<lparr>now = 0, requests = 1,
     trace = [ConsoleLog [Txt ''Waiting for Netlify to create a deployment for git SHA abc123''],
              HttpGet ''https://api.netlify.com/api/v1/sites/site1/deploys'' ''Bearer t0k3n'',
              ConsoleLog [Txt ''Deployment created ('', NumP (Num 0), Txt ''s)'']]\<rparr>"

text \<open>Runs without the token, and without any of the three required values.\<close>

definition no_token_env :: env where
  "no_token_env = stuck_env\<lparr>NETLIFY_TOKEN := Undefined\<rparr>"

definition nothing_set_env :: env where
  "nothing_set_env = stuck_env\<lparr>NETLIFY_TOKEN := Undefined, sha := Undefined, site_id := []\<rparr>"

text \<open>
  A run for a \<^verbatim>\<open>pull_request\<close> event whose payload has no \<^verbatim>\<open>pull_request\<close>, without the
  token.
\<close>

definition no_payload_env :: env where
  "no_payload_env = stuck_env\<lparr>NETLIFY_TOKEN := Undefined, eventName := Str ''pull_request''\<rparr>"

section \<open>Basic facts\<close>

lemma emit_simps [simp]:
  "trace (emit e w) = trace w @ [e]" "now (emit e w) = now w" "requests (emit e w) = requests w"
  by (simp_all add: emit_def)

lemma console_log_simps [simp]:
  "trace (console_log m w) = trace w @ [ConsoleLog m]" "now (console_log m w) = now w"
  "requests (console_log m w) = requests w"
  by (simp_all add: console_log_def)

lemma setFailed_simps [simp]:
  "trace (setFailed m w) = trace w @ [SetFailed m]" "now (setFailed m w) = now w"
  "requests (setFailed m w) = requests w"
  by (simp_all add: setFailed_def)

lemma setOutput_simps [simp]:
  "trace (setOutput k v w) = trace w @ [SetOutput k v]" "now (setOutput k v w) = now w"
  "requests (setOutput k v w) = requests w"
  by (simp_all add: setOutput_def)

lemma sleep_ms_simps [simp]:
  "trace (sleep_ms ms w) = trace w @ [SetTimeout ms]" "now (sleep_ms ms w) = now w + int ms"
  "requests (sleep_ms ms w) = requests w"
  by (simp_all add: sleep_ms_def)

lemma waitForSeconds_simps [simp]:
  "trace (waitForSeconds s w) = trace w @ [SetTimeout (s * 1000)]"
  "now (waitForSeconds s w) = now w + int (s * 1000)"
  "requests (waitForSeconds s w) = requests w"
  by (simp_all add: waitForSeconds_def)

lemma request_simps [simp]:
  "trace (request env e w) = trace w @ [e]"
  "now (request env e w) = now w + int (latency env (requests w))"
  "requests (request env e w) = Suc (requests w)"
  by (simp_all add: request_def)

section \<open>Rounding to a double\<close>

text \<open>The exponent brackets its argument between two powers of 2.\<close>

lemma exponent_lower:
  assumes "0 < x"
  shows "2 powi (exponent x) \<le> x"
proof (cases "1 \<le> x")
  case True
  define n where "n = \<lfloor>x\<rfloor>"
  have n: "0 < n" using True by (simp add: n_def)
  have b: "1 \<le> bitlen n" using n bitlen_eq_zero_iff [of n] bitlen_nonneg [of n] by linarith
  have "(2::int) ^ nat (bitlen n - 1) \<le> n" using bitlen_bounds [OF n] by simp
  then have "(of_int ((2::int) ^ nat (bitlen n - 1)) :: rat) \<le> of_int n"
    by (simp only: of_int_le_iff)
  then have "(2::rat) ^ nat (bitlen n - 1) \<le> of_int n" by simp
  also have "\<dots> \<le> x" by (simp add: n_def)
  finally have "(2::rat) ^ nat (bitlen n - 1) \<le> x" .
  moreover have "exponent x = bitlen n - 1" using True by (simp add: exponent_def n_def)
  ultimately show ?thesis using b by (simp add: power_int_nonneg_exp)
next
  case False
  define m where "m = \<lceil>1 / x\<rceil> - 1"
  have y: "1 < 1 / x" using False assms by simp
  have m: "0 < m" using y by (simp add: m_def less_ceiling_iff)
  have "m < 2 ^ nat (bitlen m)" using bitlen_bounds [OF m] by simp
  then have "m + 1 \<le> 2 ^ nat (bitlen m)" by simp
  then have "(of_int (m + 1) :: rat) \<le> of_int (2 ^ nat (bitlen m))"
    by (simp only: of_int_le_iff)
  then have "(of_int \<lceil>1 / x\<rceil> :: rat) \<le> 2 ^ nat (bitlen m)" by (simp add: m_def)
  then have "1 / x \<le> 2 ^ nat (bitlen m)"
    using le_of_int_ceiling [of "1 / x"] by linarith
  then have "1 \<le> 2 ^ nat (bitlen m) * x"
    using assms by (simp add: field_simps)
  then have "1 / 2 ^ nat (bitlen m) \<le> x"
    by (simp add: field_simps)
  moreover have "exponent x = - bitlen m" using False by (simp add: exponent_def m_def)
  ultimately show ?thesis
    using bitlen_nonneg [of m] by (simp add: power_int_minus_divide power_int_nonneg_exp)
qed

lemma exponent_upper:
  assumes "0 < x"
  shows "x < 2 powi (exponent x + 1)"
proof (cases "1 \<le> x")
  case True
  define n where "n = \<lfloor>x\<rfloor>"
  have n: "0 < n" using True by (simp add: n_def)
  have b: "1 \<le> bitlen n" using n bitlen_eq_zero_iff [of n] bitlen_nonneg [of n] by linarith
  have "n < 2 ^ nat (bitlen n)" using bitlen_bounds [OF n] by simp
  then have "n + 1 \<le> 2 ^ nat (bitlen n)" by simp
  then have "(of_int (n + 1) :: rat) \<le> of_int (2 ^ nat (bitlen n))"
    by (simp only: of_int_le_iff)
  then have "(of_int n :: rat) + 1 \<le> 2 ^ nat (bitlen n)" by simp
  moreover have "x < of_int n + 1" unfolding n_def by linarith
  ultimately have "x < 2 ^ nat (bitlen n)" by linarith
  moreover have "exponent x + 1 = bitlen n" using True by (simp add: exponent_def n_def)
  ultimately show ?thesis using b by (simp add: power_int_nonneg_exp)
next
  case False
  define m where "m = \<lceil>1 / x\<rceil> - 1"
  have y: "1 < 1 / x" using False assms by simp
  have m: "0 < m" using y by (simp add: m_def less_ceiling_iff)
  have b: "1 \<le> bitlen m" using m bitlen_eq_zero_iff [of m] bitlen_nonneg [of m] by linarith
  have "(2::int) ^ nat (bitlen m - 1) \<le> m" using bitlen_bounds [OF m] by simp
  then have "(of_int ((2::int) ^ nat (bitlen m - 1)) :: rat) \<le> of_int m"
    by (simp only: of_int_le_iff)
  then have "(2::rat) ^ nat (bitlen m - 1) \<le> of_int \<lceil>1 / x\<rceil> - 1" by (simp add: m_def)
  moreover have "of_int \<lceil>1 / x\<rceil> - 1 < 1 / x"
    using ceiling_correct [of "1 / x"] by linarith
  ultimately have "(2::rat) ^ nat (bitlen m - 1) < 1 / x" by linarith
  then have "2 ^ nat (bitlen m - 1) * x < 1"
    using assms by (simp add: field_simps)
  then have "x < 1 / 2 ^ nat (bitlen m - 1)"
    by (simp add: field_simps)
  moreover have "exponent x + 1 = - (bitlen m - 1)" using False by (simp add: exponent_def m_def)
  ultimately show ?thesis
    using b by (simp only: power_int_minus_divide) (simp add: power_int_nonneg_exp)
qed

text \<open>Rounding to an integer moves by at most one half and fixes the integers.\<close>

lemma round_half_even_error: "\<bar>of_int (round_half_even y) - y\<bar> \<le> 1 / 2"
proof -
  have "of_int \<lfloor>y\<rfloor> \<le> y" "y < of_int \<lfloor>y\<rfloor> + 1" by linarith+
  then show ?thesis
    by (auto simp: round_half_even_def Let_def)
qed

lemma round_half_even_of_int: "round_half_even (of_int k) = k"
  by (simp add: round_half_even_def)


lemma two_powi_le_imp_le:
  assumes "(2::rat) powi a \<le> 2 powi b"
  shows "a \<le> b"
proof (rule ccontr)
  assume "\<not> a \<le> b"
  then have "b < a" by simp
  then have "(2::rat) powi b < 2 powi a" by (rule power_int_strict_increasing) simp
  with assms show False by simp
qed

lemma two_powi_less_imp_less:
  assumes "(2::rat) powi a < 2 powi b"
  shows "a < b"
proof (rule ccontr)
  assume "\<not> a < b"
  then have "b \<le> a" by simp
  then have "(2::rat) powi b \<le> 2 powi a" by (rule power_int_increasing) simp
  with assms show False by simp
qed

lemma no_overflow:
  assumes "r < (2::rat) ^ 54"
  shows "\<not> 2 powi 1024 \<le> r"
proof -
  have "(2::rat) powi 54 \<le> 2 powi 1024" by (rule power_int_increasing) simp_all
  then have "(2::rat) ^ 54 \<le> 2 powi 1024" by simp
  with assms show ?thesis by linarith
qed

text \<open>
  Integers up to \<open>2 ^ 53\<close> are doubles; in the normal range rounding has a relative
  error of at most \<open>2 ^ -53\<close>; a positive value of at most half the smallest
  positive double is rounded to zero.
\<close>

lemma fl_pos_of_int:
  assumes "0 < k" and "k \<le> 2 ^ 53"
  shows "fl_pos (of_int k) = Num (of_int k)"
proof -
  define x :: rat where "x = of_int k"
  define e0 where "e0 = exponent x"
  have xp: "0 < x" and x1: "1 \<le> x" using assms(1) by (simp_all add: x_def)
  have xu: "x \<le> 2 ^ 53"
  proof -
    have "(of_int k :: rat) \<le> of_int (2 ^ 53)" using assms(2) by (simp only: of_int_le_iff)
    then show ?thesis by (simp add: x_def)
  qed
  have lo: "2 powi e0 \<le> x" and hi: "x < 2 powi (e0 + 1)"
    unfolding e0_def using exponent_lower [OF xp] exponent_upper [OF xp] by simp_all
  have "(2::rat) powi 0 < 2 powi (e0 + 1)" using x1 hi by simp
  then have e0_lo: "0 \<le> e0" using two_powi_less_imp_less [of 0 "e0 + 1"] by simp
  have "(2::rat) powi e0 \<le> 2 powi 53" using lo xu by simp
  then have e0_hi: "e0 \<le> 53" by (rule two_powi_le_imp_le)
  have e: "max e0 (- 1022) = e0" using e0_lo by simp
  have r: "of_int (round_half_even (x / 2 powi (e0 - 52))) * 2 powi (e0 - 52) = x"
  proof (cases "e0 \<le> 52")
    case True
    define n where "n = nat (52 - e0)"
    have u: "(2::rat) powi (e0 - 52) = 1 / 2 ^ n"
    proof -
      have "(2::rat) powi (e0 - 52) = 2 powi (- int n)" using True by (simp add: n_def)
      also have "\<dots> = 1 / 2 ^ n" by (simp add: power_int_minus_divide)
      finally show ?thesis .
    qed
    have "x / (1 / 2 ^ n) = of_int (k * 2 ^ n)" by (simp add: x_def)
    then have "round_half_even (x / (1 / 2 ^ n)) = k * 2 ^ n"
      by (simp only: round_half_even_of_int)
    then show ?thesis by (simp add: u x_def)
  next
    case False
    then have e53: "e0 = 53" using e0_hi by simp
    have "(2::rat) ^ 53 \<le> x" using lo by (simp add: e53)
    then have xe: "x = 2 ^ 53" using xu by simp
    have "x / 2 = of_int (2 ^ 52)" by (simp add: xe)
    then have "round_half_even (x / 2) = 2 ^ 52" by (simp only: round_half_even_of_int)
    then show ?thesis by (simp add: e53 xe)
  qed
  have "x < 2 ^ 54" using xu by simp
  then have "\<not> 2 powi 1024 \<le> x" by (rule no_overflow)
  then show ?thesis
    unfolding fl_pos_def Let_def x_def [symmetric] e0_def [symmetric] e r by simp
qed

lemma fl_of_int:
  assumes "0 \<le> k" and "k \<le> 2 ^ 53"
  shows "fl (of_int k) = Num (of_int k)"
proof (cases "k = 0")
  case True
  then show ?thesis by (simp add: fl_def)
next
  case False
  then have "0 < k" using assms(1) by simp
  then show ?thesis using fl_pos_of_int [OF _ assms(2)] by (simp add: fl_def)
qed

lemma fl_pos_error:
  assumes "2 powi (- 1022) \<le> x" and "x < 2 ^ 53"
  shows "\<exists>r. fl_pos x = Num r \<and> \<bar>r - x\<bar> \<le> x / 2 ^ 53"
proof -
  define e0 where "e0 = exponent x"
  have xp: "0 < x"
  proof -
    have "(0::rat) < 2 powi (- 1022)" by simp
    with assms(1) show ?thesis by linarith
  qed
  have lo: "2 powi e0 \<le> x" and hi: "x < 2 powi (e0 + 1)"
    unfolding e0_def using exponent_lower [OF xp] exponent_upper [OF xp] by simp_all
  have "(2::rat) powi (- 1022) < 2 powi (e0 + 1)" using assms(1) hi by linarith
  then have "- 1022 < e0 + 1" by (rule two_powi_less_imp_less)
  then have e: "max e0 (- 1022) = e0" by simp
  define u :: rat where "u = 2 powi (e0 - 52)"
  have up: "0 < u" by (simp add: u_def)
  have "u = 2 powi e0 / 2 ^ 52" by (simp add: u_def power_int_diff)
  then have ux: "u \<le> x / 2 ^ 52" using lo by (simp add: divide_right_mono)
  define r where "r = of_int (round_half_even (x / u)) * u"
  have "r - x = (of_int (round_half_even (x / u)) - x / u) * u"
    using up by (simp add: r_def field_simps)
  then have "\<bar>r - x\<bar> = \<bar>of_int (round_half_even (x / u)) - x / u\<bar> * u"
    using up by (simp add: abs_mult)
  also have "\<dots> \<le> (1 / 2) * u"
    using round_half_even_error [of "x / u"] up by (simp add: mult_right_mono)
  also have "\<dots> \<le> (1 / 2) * (x / 2 ^ 52)" using ux by simp
  also have "\<dots> = x / 2 ^ 53" by simp
  finally have err: "\<bar>r - x\<bar> \<le> x / 2 ^ 53" .
  have "x / 2 ^ 53 < 1" using assms(2) by simp
  then have "r < x + 1" using err by linarith
  then have "r < 2 ^ 54" using assms(2) by simp
  then have "\<not> 2 powi 1024 \<le> r" by (rule no_overflow)
  then have "fl_pos x = Num r"
    unfolding fl_pos_def Let_def e0_def [symmetric] e u_def [symmetric] r_def [symmetric]
    by simp
  with err show ?thesis by blast
qed

lemma fl_tiny:
  assumes "0 < x" and "x \<le> 2 powi (- 1075)"
  shows "fl x = Num 0"
proof -
  define e0 where "e0 = exponent x"
  have lo: "2 powi e0 \<le> x"
    unfolding e0_def using exponent_lower [OF assms(1)] by simp
  then have "(2::rat) powi e0 \<le> 2 powi (- 1075)" using assms(2) by linarith
  then have "e0 \<le> - 1075" by (rule two_powi_le_imp_le)
  then have e: "max e0 (- 1022) = - 1022" by simp
  define y where "y = x / 2 powi (- 1074)"
  have "(2::rat) powi (- 1075) = 2 powi (- 1074) / 2"
    using power_int_diff [of "2::rat" "- 1074" 1] by simp
  then have "x \<le> 2 powi (- 1074) / 2" using assms(2) by simp
  then have yh: "y \<le> 1 / 2" by (simp add: y_def field_simps)
  have yp: "0 < y" using assms(1) by (simp add: y_def)
  have f: "\<lfloor>y\<rfloor> = 0" using yh yp by (simp add: floor_eq_iff)
  have "round_half_even y = 0"
    using yh by (simp add: round_half_even_def Let_def f)
  then have "fl_pos x = Num 0"
    unfolding fl_pos_def Let_def e0_def [symmetric] e
    by (simp add: y_def [symmetric] del: power_int_numeral_neg_numeral)
  then show ?thesis using assms(1) by (simp add: fl_def)
qed


text \<open>
  For an integer \<open>b\<close> with \<open>0 < b < 2 ^ 53\<close>, the double \<open>b / 3\<close> has the ceiling of
  the exact quotient: the quotient is an integer, or at least a third away from one.
\<close>

lemma fl_third_ceiling:
  assumes "0 < b" and "b < 2 ^ 53"
  shows "\<exists>q. fl (of_int b / 3) = Num q \<and> \<lceil>q\<rceil> = \<lceil>(of_int b / 3 :: rat)\<rceil> \<and> q \<le> 2 ^ 53"
proof -
  define k where "k = b div 3"
  define j where "j = b mod 3"
  have b: "b = 3 * k + j" by (simp add: k_def j_def)
  have j: "0 \<le> j" "j < 3" by (simp_all add: j_def)
  have k0: "0 \<le> k" using assms(1) by (simp add: k_def)
  have kb: "k \<le> b" using assms(1) b j by linarith
  define x :: rat where "x = of_int b / 3"
  have xp: "0 < x" using assms(1) by (simp add: x_def)
  have xk: "x = of_int k + of_int j / 3" by (simp add: x_def b)
  have bu: "(of_int b :: rat) < 2 ^ 53"
  proof -
    have "(of_int b :: rat) < of_int (2 ^ 53)" using assms(2) by (simp only: of_int_less_iff)
    then show ?thesis by simp
  qed
  have fx: "fl x = fl_pos x" using xp by (simp add: fl_def)
  show ?thesis
  proof (cases "j = 0")
    case True
    then have xe: "x = of_int k" by (simp add: xk)
    have kp: "0 < k" using assms(1) b True by linarith
    have "k \<le> 2 ^ 53" using kb assms(2) by linarith
    then have "fl_pos (of_int k) = Num (of_int k)" using kp fl_pos_of_int by blast
    moreover have "(of_int k :: rat) \<le> 2 ^ 53"
    proof -
      have "(of_int k :: rat) \<le> of_int b" using kb by (simp only: of_int_le_iff)
      with bu show ?thesis by linarith
    qed
    ultimately have "fl x = Num (of_int k) \<and> \<lceil>(of_int k :: rat)\<rceil> = \<lceil>x\<rceil>
        \<and> (of_int k :: rat) \<le> 2 ^ 53"
      using fx xe by simp
    then show ?thesis
      unfolding x_def [symmetric] by blast
  next
    case False
    then have j1: "1 \<le> j" using j by linarith
    have lo: "of_int k + 1 / 3 \<le> x"
    proof -
      have "(1::rat) \<le> of_int j" using j1 by simp
      then show ?thesis by (simp add: xk)
    qed
    have hi: "x \<le> of_int k + 2 / 3"
    proof -
      have "j \<le> 2" using j by linarith
      then have "(of_int j :: rat) \<le> 2" by simp
      then show ?thesis by (simp add: xk)
    qed
    have "(2::rat) powi (- 1022) \<le> 2 powi (- 2)" by (rule power_int_increasing) simp_all
    also have "\<dots> = 1 / 4" by simp
    also have "\<dots> \<le> x"
    proof -
      have "(0::rat) \<le> of_int k" using k0 by simp
      with lo show ?thesis by linarith
    qed
    finally have n: "2 powi (- 1022) \<le> x" .
    have xu: "x < 2 ^ 53 / 3" using bu by (simp add: x_def)
    then have xu': "x < 2 ^ 53" by simp
    obtain r where r: "fl_pos x = Num r" and err: "\<bar>r - x\<bar> \<le> x / 2 ^ 53"
      using fl_pos_error [OF n xu'] by blast
    have "x / 2 ^ 53 < 1 / 3" using xu by (simp add: field_simps)
    then have e3: "\<bar>r - x\<bar> < 1 / 3" using err by linarith
    have r1: "of_int k < r" using e3 lo by linarith
    have r2: "r < of_int k + 1" using e3 hi by linarith
    have cr: "\<lceil>r\<rceil> = k + 1"
      by (rule ceiling_unique) (use r1 r2 in simp_all)
    have cx: "\<lceil>x\<rceil> = k + 1"
      by (rule ceiling_unique) (use lo hi in simp_all)
    have "k + 1 \<le> 2 ^ 53" using assms(2) b j1 k0 by linarith
    then have "(of_int (k + 1) :: rat) \<le> of_int (2 ^ 53)"
      by (simp only: of_int_le_iff)
    then have "r \<le> 2 ^ 53" using r2 by simp
    then have "fl x = Num r \<and> \<lceil>r\<rceil> = \<lceil>x\<rceil> \<and> r \<le> 2 ^ 53"
      using fx r cr cx by simp
    then show ?thesis
      unfolding x_def [symmetric] by blast
  qed
qed

text \<open>
  A third of the integer 13510798882111492 is rounded to an integer, although 3 does
  not divide it.
\<close>

lemma fl_third_rounds_to_integer: "fl (13510798882111492 / 3) = Num 4503599627370497"
proof -
  define x :: rat where "x = 13510798882111492 / 3"
  have xp: "0 < x" by (simp add: x_def)
  define e0 where "e0 = exponent x"
  have lo: "2 powi e0 \<le> x" and hi: "x < 2 powi (e0 + 1)"
    unfolding e0_def using exponent_lower [OF xp] exponent_upper [OF xp] by simp_all
  have "(2::rat) powi 52 \<le> x" by (simp add: x_def)
  then have "(2::rat) powi 52 < 2 powi (e0 + 1)" using hi by linarith
  then have "52 < e0 + 1" by (rule two_powi_less_imp_less)
  moreover have "x < 2 powi 53" by (simp add: x_def)
  then have "(2::rat) powi e0 < 2 powi 53" using lo by linarith
  then have "e0 < 53" by (rule two_powi_less_imp_less)
  ultimately have e: "e0 = 52" by simp
  have f: "\<lfloor>x\<rfloor> = 4503599627370497" by (simp add: x_def floor_eq_iff)
  have "round_half_even x = 4503599627370497"
    by (simp add: round_half_even_def Let_def f) (simp add: x_def)
  then have "fl_pos x = Num 4503599627370497"
    unfolding fl_pos_def Let_def e0_def [symmetric] e
    by (simp add: no_overflow)
  then show ?thesis
    using xp by (simp add: fl_def x_def)
qed

lemma js_minus_NaN [simp]: "js_minus a NaN = NaN"
  by (cases a) simp_all

lemma js_lt_NaN [simp]: "js_lt a NaN = False"
  by (cases a) simp_all

text \<open>
  The counter of a loop: \<open>js_increment\<close> is the rounded sum \<open>i + 1\<close> for every
  natural number up to \<open>2 ^ 53\<close>.
\<close>

lemma js_increment_exact: "i < 2 ^ 53 \<Longrightarrow> js_increment i = Suc i"
  by (simp add: js_increment_def)

lemma round_half_even_tie:
  "round_half_even (of_int k + 1 / 2) = (if even k then k else k + 1)"
proof -
  have f: "\<lfloor>(of_int k + 1 / 2 :: rat)\<rfloor> = k" by (simp add: floor_eq_iff)
  show ?thesis
    by (simp add: round_half_even_def Let_def f)
qed

lemma fl_two_53_plus_1: "fl (2 ^ 53 + 1) = Num (2 ^ 53)"
proof -
  define x :: rat where "x = 2 ^ 53 + 1"
  have xp: "0 < x" by (simp add: x_def)
  define e0 where "e0 = exponent x"
  have lo: "2 powi e0 \<le> x" and hi: "x < 2 powi (e0 + 1)"
    unfolding e0_def using exponent_lower [OF xp] exponent_upper [OF xp] by simp_all
  have "(2::rat) powi 53 \<le> x" by (simp add: x_def)
  then have "(2::rat) powi 53 < 2 powi (e0 + 1)" using hi by linarith
  then have "53 < e0 + 1" by (rule two_powi_less_imp_less)
  moreover have "x < 2 powi 54" by (simp add: x_def)
  then have "(2::rat) powi e0 < 2 powi 54" using lo by linarith
  then have "e0 < 54" by (rule two_powi_less_imp_less)
  ultimately have e: "e0 = 53" by simp
  have h: "x / 2 = 2 ^ 52 + 1 / 2" by (simp add: x_def)
  have "round_half_even (of_int (2 ^ 52) + 1 / 2) = 2 ^ 52"
    by (simp only: round_half_even_tie) simp
  then have "round_half_even (x / 2) = 2 ^ 52"
    by (simp add: h)
  then have "fl_pos x = Num (2 ^ 53)"
    unfolding fl_pos_def Let_def e0_def [symmetric] e
    by (simp add: no_overflow)
  then show ?thesis
    using xp by (simp add: fl_def x_def)
qed

lemma js_increment_rounds:
  assumes "i \<le> 2 ^ 53"
  shows "fl (of_nat i + 1) = Num (of_nat (js_increment i))"
proof (cases "i < 2 ^ 53")
  case True
  then have "int (Suc i) \<le> 2 ^ 53" by (simp add: nat_less_iff)
  then have "fl (of_int (int (Suc i))) = Num (of_int (int (Suc i)))"
    by (intro fl_of_int) simp_all
  then show ?thesis using True by (simp add: js_increment_def add.commute)
next
  case False
  then have i: "i = 2 ^ 53" using assms by simp
  show ?thesis
    using fl_two_53_plus_1 by (simp add: js_increment_def i)
qed

section \<open>The elapsed time without a start time\<close>

lemma ellapsedSeconds_no_argument: "ellapsedSeconds w None = NaN"
  by (simp add: ellapsedSeconds_def)

lemma timeout_test_false: "js_gt (ellapsedSeconds w None) timeoutSeconds = False"
  by (simp add: ellapsedSeconds_no_argument js_gt_def)

section \<open>The timeout test of the two polling waiters\<close>

lemma creation_stuck:
  "fst (creation_checkContinually n stuck_env url commitSha timeoutSeconds context startTime w)
     = Unfinished \<and>
   now (snd (creation_checkContinually n stuck_env url commitSha timeoutSeconds context startTime w))
     = now w + 5000 * int n"
proof (induction n arbitrary: w)
  case 0
  show ?case by simp
next
  case (Suc n)
  have g: "getCurrentDeploymentIfCreated stuck_env url commitSha context w =
        (Inr None, request stuck_env (HttpGet url (''Bearer '' @ to_string (NETLIFY_TOKEN stuck_env))) w)"
    by (simp add: getCurrentDeploymentIfCreated_def getNetlifyUrl_def stuck_env_def)
  have l: "latency stuck_env k = 0" for k by (simp add: stuck_env_def)
  show ?case
    by (simp add: g timeout_test_false Suc.IH l)
qed

text \<open>
  C1. The creation waiter is meant to fail with a timeout error once the elapsed time
  exceeds the budget. The test calls \<^verbatim>\<open>ellapsedSeconds()\<close> without the start time, so
  it compares \<open>NaN\<close> with the budget and is never true: with a budget of 10 seconds
  and a list that never matches, the waiter is still polling after any number \<open>n\<close> of
  iterations, \<open>5 n\<close> seconds after its start.
\<close>

theorem creation_timeout_never_fires:
  "fst (waitForDeployCreation n stuck_env ''https://api.netlify.com/api/v1/sites/site1/deploys''
          (Str ''abc123'') (Num 10) (Str []) (initial 0)) = Unfinished \<and>
   now (snd (waitForDeployCreation n stuck_env
          ''https://api.netlify.com/api/v1/sites/site1/deploys''
          (Str ''abc123'') (Num 10) (Str []) (initial 0))) = 5000 * int n"
  using creation_stuck [of n _ _ _ _ _ "initial 0"]
  by (simp add: waitForDeployCreation_def initial_def)

lemma readiness_stuck:
  "fst (readiness_checkContinually n error_state_env url timeoutSeconds startTime latest w)
     = Unfinished \<and>
   now (snd (readiness_checkContinually n error_state_env url timeoutSeconds startTime latest w))
     = now w + 10000 * int n"
proof (induction n arbitrary: w latest)
  case 0
  show ?case by simp
next
  case (Suc n)
  have g: "isCurrentDeploymentReady error_state_env url w =
        (Inr (False, Str ''error''),
         request error_state_env
           (HttpGet url (''Bearer '' @ to_string (NETLIFY_TOKEN error_state_env))) w)"
    by (simp add: isCurrentDeploymentReady_def getNetlifyUrl_def error_state_env_def
        READY_STATES_def)
  have l: "latency error_state_env k = 0" for k by (simp add: error_state_env_def)
  show ?case
    by (simp add: g timeout_test_false Suc.IH l)
qed

text \<open>
  C2. The readiness waiter is meant to fail with a timeout error, naming the budget and
  the latest state, once the elapsed time exceeds the budget. Its test has the same
  call \<^verbatim>\<open>ellapsedSeconds()\<close> without the start time: with a budget of 5 seconds and the
  state always \<^verbatim>\<open>"error"\<close>, the waiter is still polling after any number \<open>n\<close> of
  iterations, \<open>10 n\<close> seconds after its start, and no error has been thrown.
\<close>

theorem readiness_timeout_never_fires:
  "fst (waitForReadiness n error_state_env
          ''https://api.netlify.com/api/v1/sites/site1/deploys/xyz'' (Num 5) (initial 0))
     = Unfinished \<and>
   now (snd (waitForReadiness n error_state_env
          ''https://api.netlify.com/api/v1/sites/site1/deploys/xyz'' (Num 5) (initial 0)))
     = 10000 * int n"
  using readiness_stuck [of n _ _ _ _ "initial 0"]
  by (simp add: waitForReadiness_def initial_def)

text \<open>
  For every provider, budget and number of iterations, neither waiter ends with its
  timeout error.
\<close>

lemma creation_never_times_out:
  "fst (creation_checkContinually n env url commitSha timeoutSeconds context startTime w)
     \<noteq> Threw (Error [Txt ''Timeout reached: Deployment was not ready within '',
                       NumP timeoutSeconds, Txt '' seconds.''])"
proof (induction n arbitrary: w)
  case 0
  show ?case by simp
next
  case (Suc n)
  show ?case
    using Suc.IH
    by (auto simp: timeout_test_false getCurrentDeploymentIfCreated_def getNetlifyUrl_def
        split: prod.splits sum.splits option.splits get_result.splits data.splits)
qed

lemma readiness_never_times_out:
  "fst (readiness_checkContinually n env url timeoutSeconds startTime latest w)
     \<noteq> Threw (Error [Txt ''Timeout reached: Deployment was not ready within '',
                       NumP timeoutSeconds, Txt s])"
proof (induction n arbitrary: w latest)
  case 0
  show ?case by simp
next
  case (Suc n)
  have ds: "data_state d \<noteq> Inl (Error m)" for d m
    by (cases d) simp_all
  show ?case
    using Suc.IH ds
    by (auto simp: timeout_test_false isCurrentDeploymentReady_def getNetlifyUrl_def
        split: prod.splits sum.splits get_result.splits)
qed

section \<open>The deployment list is missing\<close>

text \<open>
  An iteration whose response has no data throws at once, whatever the start time of
  the waiter.
\<close>

lemma creation_iteration_fetch_failed:
  assumes "get_response env (requests w) = Resolved JNull
           \<or> get_response env (requests w) = Resolved JUndefined"
  shows "creation_checkContinually (Suc n) env url commitSha timeoutSeconds context startTime w
         = (Threw (Error [Txt ''Failed to get deployments for site'']),
            request env (HttpGet url (''Bearer '' @ to_string (NETLIFY_TOKEN env))) w)"
  using assms
  by (auto simp: getCurrentDeploymentIfCreated_def getNetlifyUrl_def)

text \<open>
  C7. When the response of the list endpoint has no data (\<^verbatim>\<open>null\<close> or missing), the
  creation waiter throws the error "Failed to get deployments for site" in that very
  iteration: one request has been made, nothing is retried, no timer is started, and
  the result does not depend on the timeout budget.
\<close>

theorem creation_fetch_failed:
  assumes "get_response env (requests w) = Resolved JNull
           \<or> get_response env (requests w) = Resolved JUndefined"
  shows "waitForDeployCreation (Suc n) env url commitSha timeoutSeconds context w =
           (Threw (Error [Txt ''Failed to get deployments for site'']),
            request env (HttpGet url (''Bearer '' @ to_string (NETLIFY_TOKEN env))) w)"
  using assms
  by (auto simp: waitForDeployCreation_def getCurrentDeploymentIfCreated_def getNetlifyUrl_def)

text \<open>An instance: the list endpoint answers \<^verbatim>\<open>null\<close>.\<close>

theorem creation_fetch_failed_witness:
  "waitForDeployCreation 3 null_list_env ''u'' (Str ''abc123'') (Num 300) (Str []) (initial 0) =
     (Threw (Error [Txt ''Failed to get deployments for site'']),
      \<lparr>now = 0, requests = 1, trace = [HttpGet ''u'' ''Bearer t0k3n'']\<rparr>)"
proof -
  have h: "get_response null_list_env (requests (initial 0)) = Resolved JNull
           \<or> get_response null_list_env (requests (initial 0)) = Resolved JUndefined"
    by (simp add: null_list_env_def)
  have "waitForDeployCreation (Suc 2) null_list_env ''u'' (Str ''abc123'') (Num 300) (Str [])
          (initial 0) =
           (Threw (Error [Txt ''Failed to get deployments for site'']),
            request null_list_env
              (HttpGet ''u'' (''Bearer '' @ to_string (NETLIFY_TOKEN null_list_env))) (initial 0))"
    by (rule creation_fetch_failed [OF h])
  then show ?thesis
    by (simp add: null_list_env_def stuck_env_def initial_def request_def emit_def
        numeral_3_eq_3)
qed

section \<open>Which deployment the creation waiter returns\<close>

lemma find_first_match:
  "P d \<Longrightarrow> \<forall>x\<in>set pre. \<not> P x \<Longrightarrow> find P (pre @ d # post) = Some d"
  by (induction pre) simp_all

lemma creation_returned_is_current:
  "fst (creation_checkContinually n env url commitSha timeoutSeconds context startTime w)
     = Returned d \<Longrightarrow> is_current commitSha context d"
proof (induction n arbitrary: w)
  case 0
  then show ?case by simp
next
  case (Suc n)
  then show ?case
    by (auto simp: timeout_test_false getCurrentDeploymentIfCreated_def getNetlifyUrl_def
        find_Some_iff
        split: prod.splits sum.splits option.splits get_result.splits data.splits)
qed

text \<open>
  The first match is returned at any iteration of the loop, whatever the start time of
  the waiter.
\<close>

lemma creation_iteration_first_match:
  assumes "get_response env (requests w) = Resolved (JList (pre @ d # post))"
    and "is_current commitSha context d"
    and "\<forall>x\<in>set pre. \<not> is_current commitSha context x"
  shows "creation_checkContinually (Suc n) env url commitSha timeoutSeconds context startTime w
         = (Returned d,
            console_log [Txt ''Deployment created ('',
                         NumP (ellapsedSeconds
                                 (request env (HttpGet url (''Bearer ''
                                    @ to_string (NETLIFY_TOKEN env))) w) (Some startTime)),
                         Txt ''s)'']
              (request env (HttpGet url (''Bearer '' @ to_string (NETLIFY_TOKEN env))) w))"
proof -
  have f: "find (is_current commitSha context) (pre @ d # post) = Some d"
    using assms(2,3) by (rule find_first_match)
  have g: "getCurrentDeploymentIfCreated env url commitSha context w =
        (Inr (Some d), request env (HttpGet url (''Bearer '' @ to_string (NETLIFY_TOKEN env))) w)"
    using assms(1) f by (simp add: getCurrentDeploymentIfCreated_def getNetlifyUrl_def)
  show ?thesis by (simp add: g)
qed

text \<open>
  C5. When the list fetched holds a record \<open>d\<close> whose commit reference equals the target
  and, if a context tag is supplied (a non-empty string), whose context equals the tag,
  and no record before \<open>d\<close> in the list is such a record, the creation waiter returns
  \<open>d\<close> on that poll, after one request; without a context tag the context of the record
  plays no role. Whatever the waiter returns is such a record.
\<close>

theorem creation_returns_first_match:
  "(get_response env (requests w) = Resolved (JList (pre @ d # post))
      \<and> commit_ref d = commitSha \<and> (truthy context \<longrightarrow> deploy_context d = context)
      \<and> (\<forall>x\<in>set pre. \<not> (commit_ref x = commitSha
                            \<and> (truthy context \<longrightarrow> deploy_context x = context)))
    \<longrightarrow> fst (waitForDeployCreation (Suc n) env url commitSha timeoutSeconds context w)
          = Returned d
        \<and> requests (snd (waitForDeployCreation (Suc n) env url commitSha timeoutSeconds
                           context w)) = Suc (requests w))
   \<and> (fst (waitForDeployCreation m env url commitSha timeoutSeconds context w) = Returned d'
    \<longrightarrow> commit_ref d' = commitSha \<and> (truthy context \<longrightarrow> deploy_context d' = context))"
proof (intro conjI impI)
  assume a: "get_response env (requests w) = Resolved (JList (pre @ d # post))
      \<and> commit_ref d = commitSha \<and> (truthy context \<longrightarrow> deploy_context d = context)
      \<and> (\<forall>x\<in>set pre. \<not> (commit_ref x = commitSha
                            \<and> (truthy context \<longrightarrow> deploy_context x = context)))"
  have "is_current commitSha context d"
    using a by (auto simp: is_current_def)
  moreover have "\<forall>x\<in>set pre. \<not> is_current commitSha context x"
    using a by (auto simp: is_current_def)
  ultimately have f: "find (is_current commitSha context) (pre @ d # post) = Some d"
    by (rule find_first_match)
  have g: "getCurrentDeploymentIfCreated env url commitSha context w =
        (Inr (Some d), request env (HttpGet url (''Bearer '' @ to_string (NETLIFY_TOKEN env))) w)"
    using a f by (simp add: getCurrentDeploymentIfCreated_def getNetlifyUrl_def)
  show "fst (waitForDeployCreation (Suc n) env url commitSha timeoutSeconds context w)
          = Returned d"
    by (simp add: waitForDeployCreation_def g)
  show "requests (snd (waitForDeployCreation (Suc n) env url commitSha timeoutSeconds
                           context w)) = Suc (requests w)"
    by (simp add: waitForDeployCreation_def g)
next
  assume "fst (waitForDeployCreation m env url commitSha timeoutSeconds context w) = Returned d'"
  then have "is_current commitSha context d'"
    unfolding waitForDeployCreation_def by (rule creation_returned_is_current)
  then show "commit_ref d' = commitSha" by (simp add: is_current_def)
next
  assume "fst (waitForDeployCreation m env url commitSha timeoutSeconds context w) = Returned d'"
    and "truthy context"
  then have "is_current commitSha context d'"
    unfolding waitForDeployCreation_def by (metis creation_returned_is_current)
  then show "deploy_context d' = context"
    using \<open>truthy context\<close> by (simp add: is_current_def)
qed

text \<open>An instance: no context tag, the match is the second record of three.\<close>

theorem creation_returns_first_match_witness:
  "fst (waitForDeployCreation 1 listing_env ''u'' (Str ''abc123'') (Num 300) (Str [])
          (initial 0)) = Returned wanted_deploy
   \<and> requests (snd (waitForDeployCreation 1 listing_env ''u'' (Str ''abc123'') (Num 300)
                      (Str []) (initial 0))) = 1
   \<and> commit_ref wanted_deploy = Str ''abc123''"
proof -
  have h: "get_response listing_env (requests (initial 0)) =
             Resolved (JList ([other_deploy] @ wanted_deploy # [later_deploy]))
      \<and> commit_ref wanted_deploy = Str ''abc123''
      \<and> (truthy (Str []) \<longrightarrow> deploy_context wanted_deploy = Str [])
      \<and> (\<forall>x\<in>set [other_deploy]. \<not> (commit_ref x = Str ''abc123''
                            \<and> (truthy (Str []) \<longrightarrow> deploy_context x = Str [])))"
    by (simp add: listing_env_def stuck_env_def initial_def other_deploy_def wanted_deploy_def)
  note t = creation_returns_first_match [of listing_env "initial 0" "[other_deploy]"
      wanted_deploy "[later_deploy]" "Str ''abc123''" "Str []" 0 "''u''" "Num 300" 1
      wanted_deploy]
  have r: "fst (waitForDeployCreation (Suc 0) listing_env ''u'' (Str ''abc123'') (Num 300)
             (Str []) (initial 0)) = Returned wanted_deploy
        \<and> requests (snd (waitForDeployCreation (Suc 0) listing_env ''u'' (Str ''abc123'')
             (Num 300) (Str []) (initial 0))) = Suc (requests (initial 0))"
    using t h by blast
  then have "fst (waitForDeployCreation 1 listing_env ''u'' (Str ''abc123'') (Num 300)
             (Str []) (initial 0)) = Returned wanted_deploy"
    by simp
  with t have "commit_ref wanted_deploy = Str ''abc123''" by blast
  with r show ?thesis by (simp add: initial_def)
qed

section \<open>When the readiness waiter returns\<close>




section \<open>The attempts of the URL waiter\<close>

lemma head_attempts_simps [simp]:
  "head_attempts [] = 0"
  "head_attempts (e # es) = (if is_head e then 1 else 0) + head_attempts es"
  "head_attempts (es @ es') = head_attempts es + head_attempts es'"
  by (simp_all add: head_attempts_def)

lemma lt_iterations_iff: "of_nat i < (q::rat) \<longleftrightarrow> i < nat \<lceil>q\<rceil>"
proof
  assume "of_nat i < q"
  then have "of_nat i < (of_int \<lceil>q\<rceil> :: rat)"
    using le_of_int_ceiling [of q] by linarith
  then have "int i < \<lceil>q\<rceil>"
    by (metis of_int_of_nat_eq of_int_less_iff)
  then show "i < nat \<lceil>q\<rceil>" by linarith
next
  assume "i < nat \<lceil>q\<rceil>"
  then have "int i < \<lceil>q\<rceil>" by linarith
  then have "of_int (int i) < q"
    by (simp add: less_ceiling_iff)
  then show "of_nat i < q" by simp
qed

lemma ceiling_bound:
  assumes "q \<le> (2::rat) ^ 53"
  shows "nat \<lceil>q\<rceil> \<le> 2 ^ 53"
proof -
  have "q \<le> of_int (2 ^ 53)" using assms by simp
  then have "\<lceil>q\<rceil> \<le> 2 ^ 53" by (rule ceiling_le)
  then show ?thesis by (simp add: nat_le_iff)
qed

lemma waitForUrl_loop_exhausted:
  assumes "\<forall>k. head_response env k \<noteq> HeadOk" and "q \<le> 2 ^ 53"
    and "nat \<lceil>q\<rceil> - i < fuel"
  shows "fst (waitForUrl_loop fuel env url (Num q) i w) = Returned ()
         \<and> head_attempts (trace (snd (waitForUrl_loop fuel env url (Num q) i w)))
           = head_attempts (trace w) + (nat \<lceil>q\<rceil> - i)
         \<and> last (trace (snd (waitForUrl_loop fuel env url (Num q) i w)))
           = SetFailed [Txt (''Timeout reached: Unable to connect to '' @ url)]"
  using assms(3)
proof (induction fuel arbitrary: i w)
  case 0
  then show ?case by simp
next
  case (Suc fuel)
  show ?case
  proof (cases "i < nat \<lceil>q\<rceil>")
    case False
    then have "\<not> js_lt (Num (of_nat i)) (Num q)" by (simp add: lt_iterations_iff)
    with False show ?thesis by simp
  next
    case True
    then have lt: "js_lt (Num (of_nat i)) (Num q)" by (simp add: lt_iterations_iff)
    have "i < 2 ^ 53" using True ceiling_bound [OF assms(2)] by linarith
    then have inc: "js_increment i = Suc i" by (rule js_increment_exact)
    obtain c m where r: "head_response env (requests w) = HeadFail c m"
      using assms(1) by (cases "head_response env (requests w)") auto
    define w' where "w' = sleep_ms 3000
                 (emit (ConsoleLogError
                          [Txt (''URL '' @ url @ '' unavailable, retrying...''
                                @ [CHR 0x0A, CHR 0x09])] c m)
                    (request env (HttpHead url) w))"
    have tr: "head_attempts (trace w') = Suc (head_attempts (trace w))"
      by (simp add: w'_def)
    have step: "waitForUrl_loop (Suc fuel) env url (Num q) i w
                = waitForUrl_loop fuel env url (Num q) (Suc i) w'"
      using lt by (simp add: axios_head_def r inc w'_def)
    have "nat \<lceil>q\<rceil> - Suc i < fuel" using Suc.prems True by linarith
    then show ?thesis
      unfolding step using Suc.IH [of "Suc i" w'] True by (simp add: tr)
  qed
qed

lemma waitForUrl_loop_unbounded:
  assumes "\<forall>k. head_response env k \<noteq> HeadOk"
  shows "fst (waitForUrl_loop fuel env url PosInf i w) = Unfinished"
proof (induction fuel arbitrary: i w)
  case 0
  show ?case by simp
next
  case (Suc fuel)
  obtain c m where r: "head_response env (requests w) = HeadFail c m"
    using assms by (cases "head_response env (requests w)") auto
  show ?case
    by (simp add: axios_head_def r Suc.IH)
qed

lemma waitForUrl_loop_success:
  assumes "\<forall>j<k. head_response env (requests w + j) \<noteq> HeadOk"
    and "head_response env (requests w + k) = HeadOk"
    and "i + k < nat \<lceil>q\<rceil>" and "q \<le> 2 ^ 53" and "k < fuel"
  shows "fst (waitForUrl_loop fuel env url (Num q) i w) = Returned ()
         \<and> head_attempts (trace (snd (waitForUrl_loop fuel env url (Num q) i w)))
           = head_attempts (trace w) + Suc k
         \<and> last (trace (snd (waitForUrl_loop fuel env url (Num q) i w))) = HttpHead url"
  using assms(1,2,3,5)
proof (induction k arbitrary: i w fuel)
  case 0
  then obtain n where f: "fuel = Suc n" by (cases fuel) simp_all
  have lt: "js_lt (Num (of_nat i)) (Num q)"
    using "0.prems"(3) by (simp add: lt_iterations_iff)
  have ah: "axios_head env url w = (HeadOk, request env (HttpHead url) w)"
    using "0.prems"(2) by (simp add: axios_head_def)
  show ?case
    using lt by (simp add: f ah)
next
  case (Suc k)
  then obtain n where f: "fuel = Suc n" by (cases fuel) simp_all
  have lt: "js_lt (Num (of_nat i)) (Num q)"
    using Suc.prems(3) by (simp add: lt_iterations_iff)
  have "i < 2 ^ 53" using Suc.prems(3) ceiling_bound [OF assms(4)] by linarith
  then have inc: "js_increment i = Suc i" by (rule js_increment_exact)
  have "head_response env (requests w) \<noteq> HeadOk"
    using Suc.prems(1) by (metis add.right_neutral zero_less_Suc)
  then obtain c m where r: "head_response env (requests w) = HeadFail c m"
    by (cases "head_response env (requests w)") auto
  define w' where "w' = sleep_ms 3000
                 (emit (ConsoleLogError
                          [Txt (''URL '' @ url @ '' unavailable, retrying...''
                                @ [CHR 0x0A, CHR 0x09])] c m)
                    (request env (HttpHead url) w))"
  have rq: "requests w' = Suc (requests w)"
    and tr: "head_attempts (trace w') = Suc (head_attempts (trace w))"
    by (simp_all add: w'_def)
  have p1: "\<forall>j<k. head_response env (requests w' + j) \<noteq> HeadOk"
  proof (intro allI impI)
    fix j
    assume "j < k"
    then have "Suc j < Suc k" by simp
    then have "head_response env (requests w + Suc j) \<noteq> HeadOk"
      using Suc.prems(1) by blast
    then show "head_response env (requests w' + j) \<noteq> HeadOk"
      by (simp add: rq)
  qed
  have p2: "head_response env (requests w' + k) = HeadOk"
    using Suc.prems(2) by (simp add: rq)
  have p3: "Suc i + k < nat \<lceil>q\<rceil>"
    using Suc.prems(3) by simp
  have p4: "k < n" using Suc.prems(4) f by simp
  have step: "waitForUrl_loop fuel env url (Num q) i w
              = waitForUrl_loop n env url (Num q) (Suc i) w'"
    using lt by (simp add: f axios_head_def r inc w'_def)
  show ?case
    unfolding step using Suc.IH [OF p1 p2 p3 p4] by (simp add: tr)
qed

lemma nine_thirds: "fl 3 = Num 3"
  using fl_of_int [of 3] by simp

text \<open>
  C4. With a budget of 9 seconds and a URL that fails at every attempt, the URL waiter
  makes exactly 3 \<^verbatim>\<open>HEAD\<close> requests, then reports "Timeout reached: Unable to connect
  to ..." through \<^verbatim>\<open>core.setFailed\<close> as its last action, and returns without
  throwing. If instead the attempt number \<open>k + 1\<close> is the first to succeed
  (\<open>k < 3\<close>), the waiter returns with exactly \<open>k + 1\<close> requests made, and the
  successful request is the last thing it did. (Four tests of the loop condition are
  enough for the model to follow the loop to its end.)
\<close>

theorem waitForUrl_nine_seconds:
  "((\<forall>k. head_response env k \<noteq> HeadOk) \<longrightarrow>
      fst (waitForUrl (4 + n) env url (Num 9) w) = Returned ()
      \<and> head_attempts (trace (snd (waitForUrl (4 + n) env url (Num 9) w)))
        = head_attempts (trace w) + 3
      \<and> last (trace (snd (waitForUrl (4 + n) env url (Num 9) w)))
        = SetFailed [Txt (''Timeout reached: Unable to connect to '' @ url)])
   \<and> ((\<forall>j<k. head_response env2 (requests w2 + j) \<noteq> HeadOk)
      \<and> head_response env2 (requests w2 + k) = HeadOk \<and> k < 3 \<longrightarrow>
      fst (waitForUrl (4 + n) env2 url (Num 9) w2) = Returned ()
      \<and> head_attempts (trace (snd (waitForUrl (4 + n) env2 url (Num 9) w2)))
        = head_attempts (trace w2) + k + 1
      \<and> last (trace (snd (waitForUrl (4 + n) env2 url (Num 9) w2))) = HttpHead url)"
proof (intro conjI impI)
  have q: "(3::rat) \<le> 2 ^ 53" by simp
  have c: "nat \<lceil>3::rat\<rceil> = 3" by simp
  assume a: "\<forall>k. head_response env k \<noteq> HeadOk"
  have f: "nat \<lceil>3::rat\<rceil> - 0 < 4 + n" by simp
  note e = waitForUrl_loop_exhausted [OF a q f, of url w]
  show "fst (waitForUrl (4 + n) env url (Num 9) w) = Returned ()"
    using e by (simp add: waitForUrl_def nine_thirds)
  show "head_attempts (trace (snd (waitForUrl (4 + n) env url (Num 9) w)))
        = head_attempts (trace w) + 3"
    using e by (simp add: waitForUrl_def nine_thirds)
  show "last (trace (snd (waitForUrl (4 + n) env url (Num 9) w)))
        = SetFailed [Txt (''Timeout reached: Unable to connect to '' @ url)]"
    using e by (simp add: waitForUrl_def nine_thirds)
next
  have q: "(3::rat) \<le> 2 ^ 53" by simp
  assume b: "(\<forall>j<k. head_response env2 (requests w2 + j) \<noteq> HeadOk)
      \<and> head_response env2 (requests w2 + k) = HeadOk \<and> k < 3"
  then have b1: "\<forall>j<k. head_response env2 (requests w2 + j) \<noteq> HeadOk"
    and b2: "head_response env2 (requests w2 + k) = HeadOk"
    and b3: "0 + k < nat \<lceil>3::rat\<rceil>"
    and b4: "k < 4 + n"
    by simp_all
  note s = waitForUrl_loop_success [OF b1 b2 b3 q b4, of url]
  show "fst (waitForUrl (4 + n) env2 url (Num 9) w2) = Returned ()"
    using s by (simp add: waitForUrl_def nine_thirds)
  show "head_attempts (trace (snd (waitForUrl (4 + n) env2 url (Num 9) w2)))
        = head_attempts (trace w2) + k + 1"
    using s by (simp add: waitForUrl_def nine_thirds)
  show "last (trace (snd (waitForUrl (4 + n) env2 url (Num 9) w2))) = HttpHead url"
    using s by (simp add: waitForUrl_def nine_thirds)
qed

text \<open>Instances: a URL that never answers, and one that answers the third time.\<close>

theorem waitForUrl_nine_seconds_witness:
  "fst (waitForUrl 4 stuck_env ''https://xyz--mysite.netlify.app'' (Num 9) (initial 0))
     = Returned ()
   \<and> head_attempts (trace (snd (waitForUrl 4 stuck_env ''https://xyz--mysite.netlify.app''
                                   (Num 9) (initial 0)))) = 3
   \<and> last (trace (snd (waitForUrl 4 stuck_env ''https://xyz--mysite.netlify.app'' (Num 9)
                          (initial 0))))
     = SetFailed [Txt ''Timeout reached: Unable to connect to https://xyz--mysite.netlify.app'']
   \<and> head_attempts (trace (snd (waitForUrl 4 third_time_env ''https://xyz--mysite.netlify.app''
                                   (Num 9) (initial 0)))) = 3
   \<and> last (trace (snd (waitForUrl 4 third_time_env ''https://xyz--mysite.netlify.app'' (Num 9)
                          (initial 0))))
     = HttpHead ''https://xyz--mysite.netlify.app''"
proof -
  have h1: "\<forall>k. head_response stuck_env k \<noteq> HeadOk" by (simp add: stuck_env_def)
  have h2: "(\<forall>j<2. head_response third_time_env (requests (initial 0) + j) \<noteq> HeadOk)
      \<and> head_response third_time_env (requests (initial 0) + 2) = HeadOk \<and> (2::nat) < 3"
    by (simp add: third_time_env_def initial_def)
  note t = waitForUrl_nine_seconds [where env = stuck_env and w = "initial 0" and n = 0
      and url = "''https://xyz--mysite.netlify.app''" and ?env2.0 = third_time_env
      and ?w2.0 = "initial 0" and k = 2]
  have c1: "fst (waitForUrl (4 + 0) stuck_env ''https://xyz--mysite.netlify.app'' (Num 9)
                   (initial 0)) = Returned ()
      \<and> head_attempts (trace (snd (waitForUrl (4 + 0) stuck_env
                                      ''https://xyz--mysite.netlify.app'' (Num 9) (initial 0))))
        = head_attempts (trace (initial 0)) + 3
      \<and> last (trace (snd (waitForUrl (4 + 0) stuck_env ''https://xyz--mysite.netlify.app''
                             (Num 9) (initial 0))))
        = SetFailed [Txt (''Timeout reached: Unable to connect to ''
                          @ ''https://xyz--mysite.netlify.app'')]"
    using t h1 by blast
  have c2: "fst (waitForUrl (4 + 0) third_time_env ''https://xyz--mysite.netlify.app'' (Num 9)
                   (initial 0)) = Returned ()
      \<and> head_attempts (trace (snd (waitForUrl (4 + 0) third_time_env
                                      ''https://xyz--mysite.netlify.app'' (Num 9) (initial 0))))
        = head_attempts (trace (initial 0)) + 2 + 1
      \<and> last (trace (snd (waitForUrl (4 + 0) third_time_env ''https://xyz--mysite.netlify.app''
                             (Num 9) (initial 0))))
        = HttpHead ''https://xyz--mysite.netlify.app''"
    using t h2 by blast
  have i: "head_attempts (trace (initial 0)) = 0" by (simp add: initial_def)
  show ?thesis
    using c1 c2 by (simp add: i)
qed

text \<open>
  With an infinite budget (\<^verbatim>\<open>max_timeout\<close> given as \<^verbatim>\<open>Infinity\<close>) and a URL that never
  answers, the loop never ends.
\<close>

lemma waitForUrl_infinite_budget:
  assumes "\<forall>k. head_response env k \<noteq> HeadOk"
  shows "fst (waitForUrl fuel env url PosInf w) = Unfinished"
  using waitForUrl_loop_unbounded [OF assms] by (simp add: waitForUrl_def)

text \<open>
  The smallest positive double, \<^verbatim>\<open>5e-324\<close>, is a positive budget; a third of it rounds
  to zero, so no attempt is made, where the ceiling of the exact quotient is 1.
\<close>

lemma tiny_third: "js_divide (Num (1 / 2 ^ 1074)) 3 = Num 0"
proof -
  define p :: rat where "p = 2 ^ 1074"
  have pp: "0 < p" by (simp add: p_def)
  have "(2::rat) powi (- 1075) = 1 / 2 ^ 1075"
    using power_int_minus_divide [of "2::rat" 1075] by simp
  also have "\<dots> = 1 / (2 * p)" by (simp add: p_def)
  finally have e: "(2::rat) powi (- 1075) = 1 / (2 * p)" .
  have "1 / p / 3 \<le> 1 / (2 * p)" using pp by (simp add: field_simps)
  then have le: "1 / p / 3 \<le> 2 powi (- 1075)" by (simp only: e)
  have "0 < 1 / p / 3" using pp by simp
  then have "fl (1 / p / 3) = Num 0" using le by (rule fl_tiny)
  then show ?thesis by (simp add: p_def)
qed

theorem tiny_budget_no_attempt:
  "(0::rat) < 1 / 2 ^ 1074
   \<and> nat \<lceil>(1 / 2 ^ 1074 :: rat) / 3\<rceil> = 1
   \<and> waitForUrl 4 stuck_env ''https://xyz--mysite.netlify.app'' (Num (1 / 2 ^ 1074)) (initial 0)
     = (Returned (),
        \<lparr>now = 0, requests = 0,
           trace = [SetFailed [Txt (''Timeout reached: Unable to connect to ''
                                    @ ''https://xyz--mysite.netlify.app'')]]\<rparr>)
   \<and> head_attempts (trace (snd (waitForUrl 4 stuck_env ''https://xyz--mysite.netlify.app''
                                   (Num (1 / 2 ^ 1074)) (initial 0)))) = 0"
proof -
  define p :: rat where "p = 2 ^ 1074"
  have pp: "1 \<le> p" by (simp add: p_def)
  have c: "\<lceil>1 / p / 3\<rceil> = 1"
  proof (rule ceiling_unique)
    show "of_int 1 - 1 < 1 / p / 3" using pp by simp
    have "1 / p \<le> 1" using pp by simp
    then show "1 / p / 3 \<le> of_int 1" by simp
  qed
  have w: "waitForUrl 4 stuck_env ''https://xyz--mysite.netlify.app'' (Num (1 / 2 ^ 1074))
             (initial 0)
     = (Returned (),
        \<lparr>now = 0, requests = 0,
           trace = [SetFailed [Txt (''Timeout reached: Unable to connect to ''
                                    @ ''https://xyz--mysite.netlify.app'')]]\<rparr>)"
    unfolding waitForUrl_def Let_def tiny_third
    by (simp add: numeral_eq_Suc initial_def setFailed_def emit_def)
  have z: "(0::rat) < 1 / 2 ^ 1074" by simp
  have c': "nat \<lceil>(1 / 2 ^ 1074 :: rat) / 3\<rceil> = 1" using c by (simp add: p_def)
  show ?thesis
    unfolding w using z c' by simp
qed

text \<open>
  C9, as the program behaves. The loop of the URL waiter runs while its counter,
  starting at 0, is less than the unrounded quotient of the budget by 3, computed in
  double precision. So when every attempt fails and that quotient is a finite number
  \<open>q\<close> of at most \<open>2 ^ 53\<close>, the waiter returns after as many \<^verbatim>\<open>HEAD\<close> requests as the
  ceiling of \<open>q\<close>. For every budget that is an integer \<open>c\<close> with \<open>0 < c < 2 ^ 53\<close>, this
  is the ceiling of \<open>c / 3\<close>.
\<close>

theorem waitForUrl_attempts_ceiling:
  "((\<forall>k. head_response env k \<noteq> HeadOk) \<and> js_divide (Num b) 3 = Num q \<and> q \<le> 2 ^ 53 \<longrightarrow>
      fst (waitForUrl (Suc (nat \<lceil>q\<rceil>) + n) env url (Num b) w) = Returned ()
      \<and> head_attempts (trace (snd (waitForUrl (Suc (nat \<lceil>q\<rceil>) + n) env url (Num b) w)))
        = head_attempts (trace w) + nat \<lceil>q\<rceil>)
   \<and> ((\<forall>k. head_response env2 k \<noteq> HeadOk) \<and> 0 < c \<and> c < 2 ^ 53 \<longrightarrow>
      fst (waitForUrl (Suc (nat \<lceil>(of_int c / 3 :: rat)\<rceil>) + n2) env2 url (Num (of_int c)) w2)
        = Returned ()
      \<and> head_attempts (trace (snd (waitForUrl (Suc (nat \<lceil>(of_int c / 3 :: rat)\<rceil>) + n2) env2
                                      url (Num (of_int c)) w2)))
        = head_attempts (trace w2) + nat \<lceil>(of_int c / 3 :: rat)\<rceil>)"
proof (intro conjI impI)
  assume a: "(\<forall>k. head_response env k \<noteq> HeadOk) \<and> js_divide (Num b) 3 = Num q \<and> q \<le> 2 ^ 53"
  then have a1: "\<forall>k. head_response env k \<noteq> HeadOk" and a2: "js_divide (Num b) 3 = Num q"
    and a3: "q \<le> 2 ^ 53" by simp_all
  have f: "nat \<lceil>q\<rceil> - 0 < Suc (nat \<lceil>q\<rceil>) + n" by simp
  note e = waitForUrl_loop_exhausted [OF a1 a3 f, of url w]
  show "fst (waitForUrl (Suc (nat \<lceil>q\<rceil>) + n) env url (Num b) w) = Returned ()"
    unfolding waitForUrl_def Let_def a2 using e by simp
  show "head_attempts (trace (snd (waitForUrl (Suc (nat \<lceil>q\<rceil>) + n) env url (Num b) w)))
        = head_attempts (trace w) + nat \<lceil>q\<rceil>"
    unfolding waitForUrl_def Let_def a2 using e by simp
next
  assume b: "(\<forall>k. head_response env2 k \<noteq> HeadOk) \<and> 0 < c \<and> c < 2 ^ 53"
  then have b1: "\<forall>k. head_response env2 k \<noteq> HeadOk" and b2: "0 < c" and b3: "c < 2 ^ 53"
    by simp_all
  obtain q where q1: "fl (of_int c / 3) = Num q"
    and q2: "\<lceil>q\<rceil> = \<lceil>(of_int c / 3 :: rat)\<rceil>" and q3: "q \<le> 2 ^ 53"
    using fl_third_ceiling [OF b2 b3] by blast
  have d: "js_divide (Num (of_int c)) 3 = Num q" using q1 by simp
  have f: "nat \<lceil>q\<rceil> - 0 < Suc (nat \<lceil>q\<rceil>) + n2" by simp
  note e = waitForUrl_loop_exhausted [OF b1 q3 f, of url w2]
  show "fst (waitForUrl (Suc (nat \<lceil>(of_int c / 3 :: rat)\<rceil>) + n2) env2 url (Num (of_int c)) w2)
        = Returned ()"
    unfolding waitForUrl_def Let_def d q2 [symmetric] using e by simp
  show "head_attempts (trace (snd (waitForUrl (Suc (nat \<lceil>(of_int c / 3 :: rat)\<rceil>) + n2) env2
                                      url (Num (of_int c)) w2)))
        = head_attempts (trace w2) + nat \<lceil>(of_int c / 3 :: rat)\<rceil>"
    unfolding waitForUrl_def Let_def d q2 [symmetric] using e by simp
qed

text \<open>Instances: a budget of 9 seconds gives 3 attempts, one of 10 seconds gives 4.\<close>

theorem waitForUrl_attempts_ceiling_witness:
  "fst (waitForUrl 4 stuck_env ''https://xyz--mysite.netlify.app'' (Num 9) (initial 0))
     = Returned ()
   \<and> head_attempts (trace (snd (waitForUrl 4 stuck_env ''https://xyz--mysite.netlify.app''
                                   (Num 9) (initial 0)))) = 3
   \<and> fst (waitForUrl 5 stuck_env ''https://xyz--mysite.netlify.app'' (Num 10) (initial 0))
     = Returned ()
   \<and> head_attempts (trace (snd (waitForUrl 5 stuck_env ''https://xyz--mysite.netlify.app''
                                   (Num 10) (initial 0)))) = 4"
proof -
  have h: "\<forall>k. head_response stuck_env k \<noteq> HeadOk" by (simp add: stuck_env_def)
  have h1: "(\<forall>k. head_response stuck_env k \<noteq> HeadOk) \<and> js_divide (Num 9) 3 = Num 3
            \<and> (3::rat) \<le> 2 ^ 53"
    using h by (simp add: nine_thirds)
  have h2: "(\<forall>k. head_response stuck_env k \<noteq> HeadOk) \<and> (0::int) < 10 \<and> (10::int) < 2 ^ 53"
    using h by simp
  note t = waitForUrl_attempts_ceiling [where env = stuck_env and b = 9 and q = 3 and n = 0
      and url = "''https://xyz--mysite.netlify.app''" and w = "initial 0"
      and ?env2.0 = stuck_env and c = 10 and ?n2.0 = 0 and ?w2.0 = "initial 0"]
  have c3: "nat \<lceil>3::rat\<rceil> = 3" by simp
  have c4: "nat \<lceil>(of_int 10 / 3 :: rat)\<rceil> = 4"
  proof -
    have "\<lceil>(10::rat) / 3\<rceil> = 4" by (rule ceiling_unique) simp_all
    then show ?thesis by simp
  qed
  have r1: "fst (waitForUrl (Suc (nat \<lceil>3::rat\<rceil>) + 0) stuck_env
                   ''https://xyz--mysite.netlify.app'' (Num 9) (initial 0)) = Returned ()
      \<and> head_attempts (trace (snd (waitForUrl (Suc (nat \<lceil>3::rat\<rceil>) + 0) stuck_env
                                      ''https://xyz--mysite.netlify.app'' (Num 9) (initial 0))))
        = head_attempts (trace (initial 0)) + nat \<lceil>3::rat\<rceil>"
    using t h1 by blast
  have r2: "fst (waitForUrl (Suc (nat \<lceil>(of_int 10 / 3 :: rat)\<rceil>) + 0) stuck_env
                   ''https://xyz--mysite.netlify.app'' (Num (of_int 10)) (initial 0))
        = Returned ()
      \<and> head_attempts (trace (snd (waitForUrl (Suc (nat \<lceil>(of_int 10 / 3 :: rat)\<rceil>) + 0)
                                      stuck_env ''https://xyz--mysite.netlify.app''
                                      (Num (of_int 10)) (initial 0))))
        = head_attempts (trace (initial 0)) + nat \<lceil>(of_int 10 / 3 :: rat)\<rceil>"
    using t h2 by blast
  have i: "head_attempts (trace (initial 0)) = 0" by (simp add: initial_def)
  have r1': "fst (waitForUrl 4 stuck_env ''https://xyz--mysite.netlify.app'' (Num 9)
                    (initial 0)) = Returned ()
      \<and> head_attempts (trace (snd (waitForUrl 4 stuck_env ''https://xyz--mysite.netlify.app''
                                      (Num 9) (initial 0)))) = 3"
    using r1 unfolding c3 i by (simp add: numeral_eq_Suc)
  have r2': "fst (waitForUrl 5 stuck_env ''https://xyz--mysite.netlify.app'' (Num 10)
                    (initial 0)) = Returned ()
      \<and> head_attempts (trace (snd (waitForUrl 5 stuck_env ''https://xyz--mysite.netlify.app''
                                      (Num 10) (initial 0)))) = 4"
    using r2 unfolding c4 i by (simp add: numeral_eq_Suc)
  from r1' r2' show ?thesis by blast
qed

section \<open>The events of a run\<close>

text \<open>Events are only ever added: each phase extends the trace it starts from.\<close>

lemma prefix_trans: "prefix xs ys \<Longrightarrow> prefix ys zs \<Longrightarrow> prefix xs zs"
  by (auto simp: prefix_def)

lemma getCurrentDeploymentIfCreated_world:
  "snd (getCurrentDeploymentIfCreated env url commitSha context w)
     = request env (HttpGet url (''Bearer '' @ to_string (NETLIFY_TOKEN env))) w"
  by (simp add: getCurrentDeploymentIfCreated_def getNetlifyUrl_def
      split: get_result.splits data.splits)

lemma isCurrentDeploymentReady_world:
  "snd (isCurrentDeploymentReady env url w)
     = request env (HttpGet url (''Bearer '' @ to_string (NETLIFY_TOKEN env))) w"
  by (simp add: isCurrentDeploymentReady_def getNetlifyUrl_def
      split: get_result.splits sum.splits)

lemma creation_trace_grows:
  "prefix (trace w)
     (trace (snd (creation_checkContinually n env url commitSha timeoutSeconds context
                    startTime w)))"
proof (induction n arbitrary: w)
  case 0
  show ?case by simp
next
  case (Suc n)
  obtain r where g: "getCurrentDeploymentIfCreated env url commitSha context w
      = (r, request env (HttpGet url (''Bearer '' @ to_string (NETLIFY_TOKEN env))) w)"
    using getCurrentDeploymentIfCreated_world [of env url commitSha "context" w]
    by (cases "getCurrentDeploymentIfCreated env url commitSha context w") simp
  show ?case
  proof (cases r)
    case (Inl e)
    then show ?thesis by (simp add: g)
  next
    case (Inr found)
    show ?thesis
    proof (cases found)
      case (Some d)
      then show ?thesis by (simp add: g Inr)
    next
      case None
      let ?w' = "waitForSeconds 5
                 (console_log [Txt ''Deploy not yet created. Trying again in '',
                               NumP (Num 5), Txt '' seconds...'']
                   (request env (HttpGet url (''Bearer '' @ to_string (NETLIFY_TOKEN env))) w))"
      have step: "creation_checkContinually (Suc n) env url commitSha timeoutSeconds context
                    startTime w
                  = creation_checkContinually n env url commitSha timeoutSeconds context
                      startTime ?w'"
        by (simp add: g Inr None timeout_test_false)
      have a: "prefix (trace w) (trace ?w')" by simp
      show ?thesis
        unfolding step using a Suc.IH [of ?w'] by (rule prefix_trans)
    qed
  qed
qed

lemma creation_first_request:
  "prefix (trace w @ [HttpGet url (''Bearer '' @ to_string (NETLIFY_TOKEN env))])
     (trace (snd (creation_checkContinually (Suc n) env url commitSha timeoutSeconds context
                    startTime w)))"
proof -
  obtain r where g: "getCurrentDeploymentIfCreated env url commitSha context w
      = (r, request env (HttpGet url (''Bearer '' @ to_string (NETLIFY_TOKEN env))) w)"
    using getCurrentDeploymentIfCreated_world [of env url commitSha "context" w]
    by (cases "getCurrentDeploymentIfCreated env url commitSha context w") simp
  show ?thesis
  proof (cases r)
    case (Inl e)
    then show ?thesis by (simp add: g)
  next
    case (Inr found)
    show ?thesis
    proof (cases found)
      case (Some d)
      then show ?thesis by (simp add: g Inr)
    next
      case None
      let ?w' = "waitForSeconds 5
                 (console_log [Txt ''Deploy not yet created. Trying again in '',
                               NumP (Num 5), Txt '' seconds...'']
                   (request env (HttpGet url (''Bearer '' @ to_string (NETLIFY_TOKEN env))) w))"
      have step: "creation_checkContinually (Suc n) env url commitSha timeoutSeconds context
                    startTime w
                  = creation_checkContinually n env url commitSha timeoutSeconds context
                      startTime ?w'"
        by (simp add: g Inr None timeout_test_false)
      have a: "prefix (trace w @ [HttpGet url (''Bearer '' @ to_string (NETLIFY_TOKEN env))])
              (trace ?w')" by simp
      show ?thesis
        unfolding step
        using a creation_trace_grows [of ?w' n env url commitSha timeoutSeconds "context" startTime]
        by (rule prefix_trans)
    qed
  qed
qed

lemma readiness_trace_grows:
  "prefix (trace w)
     (trace (snd (readiness_checkContinually n env url timeoutSeconds startTime latest w)))"
proof (induction n arbitrary: w latest)
  case 0
  show ?case by simp
next
  case (Suc n)
  obtain r where g: "isCurrentDeploymentReady env url w
      = (r, request env (HttpGet url (''Bearer '' @ to_string (NETLIFY_TOKEN env))) w)"
    using isCurrentDeploymentReady_world [of env url w]
    by (cases "isCurrentDeploymentReady env url w") simp
  show ?case
  proof (cases r)
    case (Inl e)
    then show ?thesis by (simp add: g)
  next
    case (Inr p)
    obtain isReady state where p: "p = (isReady, state)" by (cases p)
    show ?thesis
    proof (cases isReady)
      case True
      then show ?thesis by (simp add: g Inr p)
    next
      case False
      let ?w' = "waitForSeconds 10
                 (console_log [Txt (''Deploy not yet ready (state = ''
                                    @ to_string state @ ''). Trying again in ''),
                               NumP (Num 10), Txt '' seconds...'']
                   (request env (HttpGet url (''Bearer '' @ to_string (NETLIFY_TOKEN env))) w))"
      have step: "readiness_checkContinually (Suc n) env url timeoutSeconds startTime latest w
                  = readiness_checkContinually n env url timeoutSeconds startTime state ?w'"
        by (simp add: g Inr p False timeout_test_false)
      have a: "prefix (trace w) (trace ?w')" by simp
      show ?thesis
        unfolding step using a Suc.IH [of ?w' state] by (rule prefix_trans)
    qed
  qed
qed

lemma readiness_first_request:
  "prefix (trace w @ [HttpGet url (''Bearer '' @ to_string (NETLIFY_TOKEN env))])
     (trace (snd (readiness_checkContinually (Suc n) env url timeoutSeconds startTime latest w)))"
proof -
  obtain r where g: "isCurrentDeploymentReady env url w
      = (r, request env (HttpGet url (''Bearer '' @ to_string (NETLIFY_TOKEN env))) w)"
    using isCurrentDeploymentReady_world [of env url w]
    by (cases "isCurrentDeploymentReady env url w") simp
  show ?thesis
  proof (cases r)
    case (Inl e)
    then show ?thesis by (simp add: g)
  next
    case (Inr p)
    obtain isReady state where p: "p = (isReady, state)" by (cases p)
    show ?thesis
    proof (cases isReady)
      case True
      then show ?thesis by (simp add: g Inr p)
    next
      case False
      let ?w' = "waitForSeconds 10
                 (console_log [Txt (''Deploy not yet ready (state = ''
                                    @ to_string state @ ''). Trying again in ''),
                               NumP (Num 10), Txt '' seconds...'']
                   (request env (HttpGet url (''Bearer '' @ to_string (NETLIFY_TOKEN env))) w))"
      have step: "readiness_checkContinually (Suc n) env url timeoutSeconds startTime latest w
                  = readiness_checkContinually n env url timeoutSeconds startTime state ?w'"
        by (simp add: g Inr p False timeout_test_false)
      have a: "prefix (trace w @ [HttpGet url (''Bearer '' @ to_string (NETLIFY_TOKEN env))])
              (trace ?w')" by simp
      show ?thesis
        unfolding step
        using a readiness_trace_grows [of ?w' n env url timeoutSeconds startTime state]
        by (rule prefix_trans)
    qed
  qed
qed

lemma waitForUrl_loop_trace_grows:
  "prefix (trace w) (trace (snd (waitForUrl_loop fuel env url iterations i w)))"
proof (induction fuel arbitrary: i w)
  case 0
  show ?case by simp
next
  case (Suc fuel)
  show ?case
  proof (cases "js_lt (Num (of_nat i)) iterations")
    case False
    then show ?thesis by simp
  next
    case True
    show ?thesis
    proof (cases "head_response env (requests w)")
      case HeadOk
      then show ?thesis
        using True by (simp add: axios_head_def)
    next
      case (HeadFail c m)
      let ?w' = "sleep_ms 3000
                 (emit (ConsoleLogError
                          [Txt (''URL '' @ url @ '' unavailable, retrying...''
                                @ [CHR 0x0A, CHR 0x09])] c m)
                    (request env (HttpHead url) w))"
      have step: "waitForUrl_loop (Suc fuel) env url iterations i w
                  = waitForUrl_loop fuel env url iterations (js_increment i) ?w'"
        using True by (simp add: axios_head_def HeadFail)
      have a: "prefix (trace w) (trace ?w')" by simp
      show ?thesis
        unfolding step using a Suc.IH [of ?w' "js_increment i"] by (rule prefix_trans)
    qed
  qed
qed

lemma run_trace_grows:
  "prefix (trace (snd (run_try fuel env w0))) (trace (snd (run fuel env w0)))"
  by (cases "run_try fuel env w0") (simp add: run_def split: outcome.splits)

lemma creation_returned_fuel:
  "creation_checkContinually n env url commitSha timeoutSeconds context startTime w
     = (Returned d, w') \<Longrightarrow> \<exists>m. n = Suc m"
  by (cases n) simp_all

lemma waitForUrl_trace_grows:
  "prefix (trace w) (trace (snd (waitForUrl fuel env url timeoutSeconds w)))"
  by (simp add: waitForUrl_def waitForUrl_loop_trace_grows)

lemma run_after_creation_first_events:
  "prefix (trace w5 @
      [SetOutput ''deploy_id'' (deploy_id d),
       SetOutput ''url'' (Str (preview_url d)),
       ConsoleLog [Txt (''Waiting for Netlify deployment '' @ to_string (deploy_id d)
                        @ '' in site '' @ to_string (deploy_name d) @ '' to be ready'')],
       HttpGet (deploys_url env @ ''/'' @ to_string (deploy_id d))
               (''Bearer '' @ to_string (NETLIFY_TOKEN env))])
     (trace (snd (run_after_creation (Suc m) env d w5)))"
proof -
  define w8 where "w8 = console_log [Txt (''Waiting for Netlify deployment ''
                                 @ to_string (deploy_id d) @ '' in site ''
                                 @ to_string (deploy_name d)
                                 @ '' to be ready'')]
                         (setOutput ''url'' (Str (preview_url d))
                           (setOutput ''deploy_id'' (deploy_id d) w5))"
  define status_url where "status_url = deploys_url env @ ''/'' @ to_string (deploy_id d)"
  have t8: "trace w8 = trace w5 @
      [SetOutput ''deploy_id'' (deploy_id d),
       SetOutput ''url'' (Str (preview_url d)),
       ConsoleLog [Txt (''Waiting for Netlify deployment '' @ to_string (deploy_id d)
                        @ '' in site '' @ to_string (deploy_name d) @ '' to be ready'')]]"
    by (simp add: w8_def)
  obtain r w9 where rd: "waitForReadiness (Suc m) env status_url (Num 900) w8 = (r, w9)"
    by (cases "waitForReadiness (Suc m) env status_url (Num 900) w8")
  have s9: "w9 = snd (readiness_checkContinually (Suc m) env status_url (Num 900) (now w8)
                        (Str ''(unknown)'') w8)"
    using rd [unfolded waitForReadiness_def] by (simp only: snd_conv)
  have p9: "prefix (trace w8 @ [HttpGet status_url (''Bearer '' @ to_string (NETLIFY_TOKEN env))])
              (trace w9)"
    unfolding s9 by (rule readiness_first_request)
  have ra: "run_after_creation (Suc m) env d w5 =
      (case r of
         Threw e \<Rightarrow> (Threw e, w9)
       | Unfinished \<Rightarrow> (Unfinished, w9)
       | Returned u \<Rightarrow>
           waitForUrl (Suc m) env (preview_url d) (js_or_default (max_timeout env) 60)
             (console_log [Txt (''Waiting for a 200 from: '' @ preview_url d)] w9))"
    using rd by (simp add: run_after_creation_def Let_def w8_def status_url_def)
  have "prefix (trace w9) (trace (snd (run_after_creation (Suc m) env d w5)))"
  proof (cases r)
    case (Returned u)
    have "prefix (trace w9)
            (trace (console_log [Txt (''Waiting for a 200 from: '' @ preview_url d)] w9))"
      by simp
    then show ?thesis
      unfolding ra Returned outcome.case
      using waitForUrl_trace_grows by (rule prefix_trans)
  next
    case (Threw e)
    then show ?thesis by (simp add: ra)
  next
    case Unfinished
    then show ?thesis by (simp add: ra)
  qed
  with p9 have "prefix (trace w8 @ [HttpGet status_url (''Bearer '' @ to_string (NETLIFY_TOKEN env))])
                  (trace (snd (run_after_creation (Suc m) env d w5)))"
    by (rule prefix_trans)
  then show ?thesis
    by (simp add: t8 status_url_def)
qed

text \<open>
  C8. When the creation waiter, called by the run for the commit it has read, returns
  the deployment \<open>d\<close>, the next two events of the
  run are the outputs \<^verbatim>\<open>deploy_id\<close>, with the identifier of \<open>d\<close>, and \<^verbatim>\<open>url\<close>, with
  the string \<^verbatim>\<open>https://{id}--{name}.netlify.app\<close>; only after them comes the first
  request of the readiness waiter. This holds whatever the later phases do.
\<close>

theorem outputs_published_after_creation:
  assumes "commitSha_of env = Inr commitSha"
    and "waitForDeployCreation fuel env (deploys_url env) commitSha (Num 300)
           (Str (context_input env)) (before_creation env commitSha w0) = (Returned d, w5)"
  shows "prefix (trace w5 @
      [SetOutput ''deploy_id'' (deploy_id d),
       SetOutput ''url'' (Str (''https://'' @ to_string (deploy_id d) @ ''--''
                               @ to_string (deploy_name d) @ ''.netlify.app'')),
       ConsoleLog [Txt (''Waiting for Netlify deployment '' @ to_string (deploy_id d)
                        @ '' in site '' @ to_string (deploy_name d) @ '' to be ready'')],
       HttpGet (''https://api.netlify.com/api/v1/sites/'' @ site_id env @ ''/deploys/''
                @ to_string (deploy_id d))
               (''Bearer '' @ to_string (NETLIFY_TOKEN env))])
     (trace (snd (run fuel env w0)))"
proof -
  obtain m where m: "fuel = Suc m"
    using assms(2) creation_returned_fuel unfolding waitForDeployCreation_def by blast
  have rt: "run_try (Suc m) env w0 = run_after_creation (Suc m) env d w5"
    using assms m by (simp add: run_try_def)
  have "prefix (trace w5 @
      [SetOutput ''deploy_id'' (deploy_id d),
       SetOutput ''url'' (Str (preview_url d)),
       ConsoleLog [Txt (''Waiting for Netlify deployment '' @ to_string (deploy_id d)
                        @ '' in site '' @ to_string (deploy_name d) @ '' to be ready'')],
       HttpGet (deploys_url env @ ''/'' @ to_string (deploy_id d))
               (''Bearer '' @ to_string (NETLIFY_TOKEN env))])
     (trace (snd (run fuel env w0)))"
    unfolding m
    using run_after_creation_first_events [of w5 d env m]
      run_trace_grows [of "Suc m" env w0, unfolded rt]
    by (rule prefix_trans)
  then show ?thesis
    by (simp add: preview_url_def deploys_url_def)
qed

lemma floor_half: "\<lfloor>(1::rat) / 2\<rfloor> = 0"
  by (rule floor_unique) simp_all

lemma null_status_env_commit: "commitSha_of null_status_env = Inr (Str ''abc123'')"
  by (simp add: commitSha_of_def null_status_env_def stuck_env_def)

lemma null_status_env_created:
  "waitForDeployCreation 1 null_status_env (deploys_url null_status_env)
     (Str ''abc123'') (Num 300) (Str (context_input null_status_env))
     (before_creation null_status_env (Str ''abc123'') (initial 0))
     = (Returned xyz_deploy, created_world)"
  by (simp add: waitForDeployCreation_def getCurrentDeploymentIfCreated_def getNetlifyUrl_def
      null_status_env_def stuck_env_def deploys_url_def before_creation_def
      check_required_def initial_def is_current_def xyz_deploy_def created_world_def
      ellapsedSeconds_def request_def emit_def console_log_def floor_half fl_def)

text \<open>
  An instance: deployment \<^verbatim>\<open>xyz\<close> of site \<^verbatim>\<open>mysite\<close>, in a run whose second phase fails.
\<close>

theorem outputs_published_after_creation_witness:
  "prefix
     [ConsoleLog [Txt ''Waiting for Netlify to create a deployment for git SHA abc123''],
      HttpGet ''https://api.netlify.com/api/v1/sites/site1/deploys'' ''Bearer t0k3n'',
      ConsoleLog [Txt ''Deployment created ('', NumP (Num 0), Txt ''s)''],
      SetOutput ''deploy_id'' (Str ''xyz''),
      SetOutput ''url'' (Str ''https://xyz--mysite.netlify.app''),
      ConsoleLog [Txt ''Waiting for Netlify deployment xyz in site mysite to be ready''],
      HttpGet ''https://api.netlify.com/api/v1/sites/site1/deploys/xyz'' ''Bearer t0k3n'']
     (trace (snd (run 1 null_status_env (initial 0))))"
  using outputs_published_after_creation [OF null_status_env_commit null_status_env_created]
  by (simp add: created_world_def xyz_deploy_def null_status_env_def stuck_env_def)



section \<open>Missing required values\<close>

text \<open>
  A run without the token reports the missing token and then requests the list of
  deployments all the same.
\<close>

theorem missing_token_still_fetches:
  "\<not> truthy (NETLIFY_TOKEN no_token_env)
   \<and> trace (snd (run 1 no_token_env (initial 0))) =
       [SetFailed [Txt (''Please set NETLIFY_TOKEN env variable to your ''
                        @ ''Netlify Personal Access Token secret'')],
        ConsoleLog [Txt ''Waiting for Netlify to create a deployment for git SHA abc123''],
        HttpGet ''https://api.netlify.com/api/v1/sites/site1/deploys'' ''Bearer undefined'',
        ConsoleLog [Txt ''Deploy not yet created. Trying again in '', NumP (Num 5),
                    Txt '' seconds...''],
        SetTimeout 5000]"
  by (simp add: run_def run_try_def waitForDeployCreation_def getCurrentDeploymentIfCreated_def
      getNetlifyUrl_def no_token_env_def stuck_env_def deploys_url_def commitSha_of_def
      before_creation_def check_required_def initial_def timeout_test_false)

lemma run_try_first_request:
  assumes "commitSha_of env = Inr commitSha"
  shows "prefix (trace (before_creation env commitSha w0)
           @ [HttpGet (deploys_url env) (''Bearer '' @ to_string (NETLIFY_TOKEN env))])
     (trace (snd (run_try (Suc n) env w0)))"
proof -
  define wb where "wb = before_creation env commitSha w0"
  obtain r w5 where c: "waitForDeployCreation (Suc n) env (deploys_url env) commitSha
                          (Num 300) (Str (context_input env)) wb = (r, w5)"
    by (cases "waitForDeployCreation (Suc n) env (deploys_url env) commitSha
                          (Num 300) (Str (context_input env)) wb")
  have s5: "w5 = snd (creation_checkContinually (Suc n) env (deploys_url env) commitSha
                          (Num 300) (Str (context_input env)) (now wb) wb)"
    using c [unfolded waitForDeployCreation_def] by (simp only: snd_conv)
  have p5: "prefix (trace wb @ [HttpGet (deploys_url env)
                                 (''Bearer '' @ to_string (NETLIFY_TOKEN env))]) (trace w5)"
    unfolding s5 by (rule creation_first_request)
  have rt: "run_try (Suc n) env w0 =
      (case r of Threw e \<Rightarrow> (Threw e, w5) | Unfinished \<Rightarrow> (Unfinished, w5)
       | Returned commitDeployment \<Rightarrow> run_after_creation (Suc n) env commitDeployment w5)"
    using c assms by (simp add: run_try_def wb_def)
  have "prefix (trace w5) (trace (snd (run_try (Suc n) env w0)))"
  proof (cases r)
    case (Returned d)
    have "prefix (trace w5) (trace w5 @
      [SetOutput ''deploy_id'' (deploy_id d),
       SetOutput ''url'' (Str (preview_url d)),
       ConsoleLog [Txt (''Waiting for Netlify deployment '' @ to_string (deploy_id d)
                        @ '' in site '' @ to_string (deploy_name d) @ '' to be ready'')],
       HttpGet (deploys_url env @ ''/'' @ to_string (deploy_id d))
               (''Bearer '' @ to_string (NETLIFY_TOKEN env))])"
      by simp
    then show ?thesis
      unfolding rt Returned outcome.case
      using run_after_creation_first_events by (rule prefix_trans)
  next
    case (Threw e)
    then show ?thesis by (simp add: rt)
  next
    case Unfinished
    then show ?thesis by (simp add: rt)
  qed
  with p5 show ?thesis
    unfolding wb_def by (rule prefix_trans)
qed

text \<open>
  C3, as the program behaves. When the commit reference can be read (the event is not
  \<^verbatim>\<open>pull_request\<close>, or its payload has \<^verbatim>\<open>pull_request.head\<close>), each of the three required
  values (token, commit reference, site identifier) that is missing is reported through
  \<^verbatim>\<open>core.setFailed\<close>, and the run does not stop there: after these reports it requests
  the list of deployments, with the values it has. When reading the commit reference
  throws, the run makes none of the checks and no request: all it does is report that
  error.
\<close>

theorem missing_value_reported_then_fetch:
  "(commitSha_of env = Inr commitSha \<longrightarrow>
     (\<exists>es rest.
        trace (snd (run (Suc n) env (initial t)))
          = es @ HttpGet (''https://api.netlify.com/api/v1/sites/'' @ site_id env @ ''/deploys'')
                         (''Bearer '' @ to_string (NETLIFY_TOKEN env)) # rest
        \<and> (\<not> truthy (NETLIFY_TOKEN env) \<longrightarrow>
             SetFailed [Txt (''Please set NETLIFY_TOKEN env variable to your ''
                             @ ''Netlify Personal Access Token secret'')] \<in> set es)
        \<and> (\<not> truthy commitSha \<longrightarrow>
             SetFailed [Txt ''Could not determine GitHub commit''] \<in> set es)
        \<and> (site_id env = [] \<longrightarrow>
             SetFailed [Txt ''Required field `site_id` was not provided''] \<in> set es)))
   \<and> (commitSha_of env2 = Inl e \<longrightarrow>
        run fuel env2 w = (Returned (), setFailed (error_message e) w))"
proof (intro conjI impI)
  assume c: "commitSha_of env = Inr commitSha"
  define es where "es = trace (before_creation env commitSha (initial t))"
  have "prefix (es @ [HttpGet (deploys_url env) (''Bearer '' @ to_string (NETLIFY_TOKEN env))])
          (trace (snd (run (Suc n) env (initial t))))"
    unfolding es_def
    using run_try_first_request [OF c] run_trace_grows by (rule prefix_trans)
  then obtain rest where
    "trace (snd (run (Suc n) env (initial t)))
       = (es @ [HttpGet (deploys_url env) (''Bearer '' @ to_string (NETLIFY_TOKEN env))]) @ rest"
    by (auto simp: prefix_def)
  then have e: "trace (snd (run (Suc n) env (initial t)))
       = es @ HttpGet (''https://api.netlify.com/api/v1/sites/'' @ site_id env @ ''/deploys'')
                      (''Bearer '' @ to_string (NETLIFY_TOKEN env)) # rest"
    by (simp add: deploys_url_def)
  have m1: "\<not> truthy (NETLIFY_TOKEN env) \<longrightarrow>
          SetFailed [Txt (''Please set NETLIFY_TOKEN env variable to your ''
                          @ ''Netlify Personal Access Token secret'')] \<in> set es"
    by (simp add: es_def before_creation_def check_required_def Let_def)
  have m2: "\<not> truthy commitSha \<longrightarrow>
          SetFailed [Txt ''Could not determine GitHub commit''] \<in> set es"
    by (simp add: es_def before_creation_def check_required_def Let_def)
  have m3: "site_id env = [] \<longrightarrow>
          SetFailed [Txt ''Required field `site_id` was not provided''] \<in> set es"
    by (simp add: es_def before_creation_def check_required_def Let_def)
  from e m1 m2 m3 show "\<exists>es rest.
        trace (snd (run (Suc n) env (initial t)))
          = es @ HttpGet (''https://api.netlify.com/api/v1/sites/'' @ site_id env @ ''/deploys'')
                         (''Bearer '' @ to_string (NETLIFY_TOKEN env)) # rest
        \<and> (\<not> truthy (NETLIFY_TOKEN env) \<longrightarrow>
             SetFailed [Txt (''Please set NETLIFY_TOKEN env variable to your ''
                             @ ''Netlify Personal Access Token secret'')] \<in> set es)
        \<and> (\<not> truthy commitSha \<longrightarrow>
             SetFailed [Txt ''Could not determine GitHub commit''] \<in> set es)
        \<and> (site_id env = [] \<longrightarrow>
             SetFailed [Txt ''Required field `site_id` was not provided''] \<in> set es)"
    by blast
next
  assume "commitSha_of env2 = Inl e"
  then show "run fuel env2 w = (Returned (), setFailed (error_message e) w)"
    by (simp add: run_def run_try_def)
qed

text \<open>
  Instances: a push event with none of the three values set, and a \<^verbatim>\<open>pull_request\<close>
  event whose payload has no \<^verbatim>\<open>pull_request\<close>, without the token.
\<close>

theorem missing_value_reported_then_fetch_witness:
  "(\<exists>es rest.
     trace (snd (run 1 nothing_set_env (initial 0)))
       = es @ HttpGet ''https://api.netlify.com/api/v1/sites//deploys'' ''Bearer undefined''
              # rest
     \<and> SetFailed [Txt (''Please set NETLIFY_TOKEN env variable to your ''
                      @ ''Netlify Personal Access Token secret'')] \<in> set es
     \<and> SetFailed [Txt ''Could not determine GitHub commit''] \<in> set es
     \<and> SetFailed [Txt ''Required field `site_id` was not provided''] \<in> set es)
   \<and> run 3 no_payload_env (initial 0)
     = (Returned (),
        \<lparr>now = 0, requests = 0,
           trace = [SetFailed [Txt (''Cannot read properties of undefined (reading ''
                                    @ [CHR 0x27] @ ''head'' @ [CHR 0x27] @ '')'')]]\<rparr>)"
proof -
  have h0: "commitSha_of nothing_set_env = Inr Undefined"
    by (simp add: nothing_set_env_def commitSha_of_def stuck_env_def)
  have h1: "\<not> truthy (NETLIFY_TOKEN nothing_set_env)"
    by (simp add: nothing_set_env_def)
  have h2: "\<not> truthy Undefined" by simp
  have h3: "site_id nothing_set_env = []"
    by (simp add: nothing_set_env_def)
  have h4: "commitSha_of no_payload_env = Inl (TypeError (cannot_read ''undefined'' ''head''))"
    by (simp add: no_payload_env_def commitSha_of_def stuck_env_def)
  have u: "''https://api.netlify.com/api/v1/sites/'' @ site_id nothing_set_env @ ''/deploys''
             = ''https://api.netlify.com/api/v1/sites//deploys''"
    by (simp add: h3)
  have b: "''Bearer '' @ to_string (NETLIFY_TOKEN nothing_set_env) = ''Bearer undefined''"
    by (simp add: nothing_set_env_def)
  note t = missing_value_reported_then_fetch [where env = nothing_set_env
      and commitSha = Undefined and n = 0 and t = 0 and ?env2.0 = no_payload_env
      and e = "TypeError (cannot_read ''undefined'' ''head'')" and fuel = 3 and w = "initial 0"]
  from t h0 obtain es rest where
    "trace (snd (run (Suc 0) nothing_set_env (initial 0)))
       = es @ HttpGet (''https://api.netlify.com/api/v1/sites/'' @ site_id nothing_set_env
                       @ ''/deploys'')
                      (''Bearer '' @ to_string (NETLIFY_TOKEN nothing_set_env)) # rest"
    and "\<not> truthy (NETLIFY_TOKEN nothing_set_env) \<longrightarrow>
          SetFailed [Txt (''Please set NETLIFY_TOKEN env variable to your ''
                          @ ''Netlify Personal Access Token secret'')] \<in> set es"
    and "\<not> truthy Undefined \<longrightarrow>
          SetFailed [Txt ''Could not determine GitHub commit''] \<in> set es"
    and "site_id nothing_set_env = [] \<longrightarrow>
          SetFailed [Txt ''Required field `site_id` was not provided''] \<in> set es"
    by blast
  with h1 h2 h3 have
    "trace (snd (run 1 nothing_set_env (initial 0)))
       = es @ HttpGet ''https://api.netlify.com/api/v1/sites//deploys'' ''Bearer undefined''
              # rest
     \<and> SetFailed [Txt (''Please set NETLIFY_TOKEN env variable to your ''
                      @ ''Netlify Personal Access Token secret'')] \<in> set es
     \<and> SetFailed [Txt ''Could not determine GitHub commit''] \<in> set es
     \<and> SetFailed [Txt ''Required field `site_id` was not provided''] \<in> set es"
    unfolding u b One_nat_def by blast
  then have p1: "\<exists>es rest.
     trace (snd (run 1 nothing_set_env (initial 0)))
       = es @ HttpGet ''https://api.netlify.com/api/v1/sites//deploys'' ''Bearer undefined''
              # rest
     \<and> SetFailed [Txt (''Please set NETLIFY_TOKEN env variable to your ''
                      @ ''Netlify Personal Access Token secret'')] \<in> set es
     \<and> SetFailed [Txt ''Could not determine GitHub commit''] \<in> set es
     \<and> SetFailed [Txt ''Required field `site_id` was not provided''] \<in> set es"
    by blast
  have "run 3 no_payload_env (initial 0)
     = (Returned (),
        setFailed (error_message (TypeError (cannot_read ''undefined'' ''head''))) (initial 0))"
    using t h4 by blast
  then have p2: "run 3 no_payload_env (initial 0)
     = (Returned (),
        \<lparr>now = 0, requests = 0,
           trace = [SetFailed [Txt (''Cannot read properties of undefined (reading ''
                                    @ [CHR 0x27] @ ''head'' @ [CHR 0x27] @ '')'')]]\<rparr>)"
    by (simp add: setFailed_def emit_def initial_def cannot_read_def)
  from p1 p2 show ?thesis by blast
qed

end
